theory Spec2Isabelle
  imports
    Main
    "HOL-Library.Char_ord"
    "HOL-Library.List_Lexorder"
    "HOL-Library.Multiset"
begin

section \<open>The Zscaler IP list updater: data model\<close>

text \<open>
  The script \<^verbatim>\<open>update_zscaler_iplist.py\<close> fetches the CIDR ranges published by
  Zscaler, compares them with the ranges of a named IPList of an Illumio policy engine,
  creates or updates the IPList when they differ, and provisions the change.

  Ranges are Python strings, compared and sorted as such: \<^typ>\<open>string\<close> with the
  lexicographic order of \<open>List_Lexorder\<close> over the character order of \<open>Char_ord\<close>.
\<close>

subsection \<open>Exceptions and outcomes\<close>

text \<open>
  An exception is its class, as far as the script's handlers tell classes apart, and the text
  that \<^verbatim>\<open>str(e)\<close> gives. \<open>RequestException\<close> stands for
  \<^verbatim>\<open>requests.exceptions.RequestException\<close> and its subclasses (also the JSON decoding
  error of current \<^verbatim>\<open>requests\<close>, which the first handler of the fetch catches).
  Every class here is a subclass of \<^verbatim>\<open>Exception\<close>.
\<close>

datatype exn_kind =
  RequestException | KeyError | ValueError | TypeError | AttributeError | OtherException

datatype exn = Exn (kind: exn_kind) (message: string)

text \<open>
  How a function of the script ends: it returns a value, it calls \<^verbatim>\<open>sys.exit(n)\<close>, or
  an exception leaves it uncaught.
\<close>

datatype 'a outcome = Returns 'a | SysExit nat | Raises exn

text \<open>
  The exit status of the process when \<^verbatim>\<open>main()\<close> ends that way: the interpreter
  exits with status 1 on an uncaught exception.
\<close>

fun exit_status :: "'a outcome \<Rightarrow> nat" where
  "exit_status (Returns _) = 0"
| "exit_status (SysExit n) = n"
| "exit_status (Raises _) = 1"

subsection \<open>JSON values and the HTTP response\<close>

datatype json =
  JNull | JBool bool | JNum int | JStr string | JArr "json list" | JObj "(string \<times> json) list"

text \<open>
  A response object of \<^verbatim>\<open>requests\<close>, as the results of the two methods the script
  calls on it: \<^verbatim>\<open>raise_for_status()\<close> (which raises an \<^verbatim>\<open>HTTPError\<close>, a
  \<open>RequestException\<close>, on a 4xx or 5xx status) and \<^verbatim>\<open>json()\<close> (which raises when
  the body is not JSON).
\<close>

record response =
  raise_for_status :: "exn + unit"
  json :: "exn + json"

subsection \<open>The policy engine's objects\<close>

record IPRange =
  from_ip :: "string option"
  to_ip :: "string option"

record IPList =
  href :: "string option"
  name :: string
  description :: "string option"
  ip_ranges :: "IPRange list option"

record changeset =
  version :: int
  workloads_affected :: int

subsection \<open>Effects: output, calls and the process\<close>

datatype call =
    HttpGet string nat
  | IpListsGet string
  | IpListsCreate IPList
  | IpListsUpdate "string option" IPList
  | IpListsGetByReference "string option"
  | ProvisionPolicyChanges string "string option list"

datatype event = Stdout string | Stderr string | Call call

text \<open>
  The running process: the state of the remote policy engine, everything printed and
  called so far, and the order in which this Python process iterates over a set of strings
  (\<^verbatim>\<open>list(s)\<close>; Python leaves it unspecified).
\<close>

record 's world =
  server :: 's
  trace :: "event list"
  set_order :: "string set \<Rightarrow> string list"

definition print :: "string \<Rightarrow> 's world \<Rightarrow> 's world" where
  "print s w = w\<lparr>trace := trace w @ [Stdout s]\<rparr>"

definition print_err :: "string \<Rightarrow> 's world \<Rightarrow> 's world" where
  "print_err s w = w\<lparr>trace := trace w @ [Stderr s]\<rparr>"

text \<open>A call to the outside is recorded, then its answer and the new remote state taken.\<close>

definition invoke :: "call \<Rightarrow> ('s \<Rightarrow> 'a \<times> 's) \<Rightarrow> 's world \<Rightarrow> 'a \<times> 's world" where
  "invoke c f w =
     (case f (server w) of (r, s) \<Rightarrow> (r, w\<lparr>server := s, trace := trace w @ [Call c]\<rparr>))"

text \<open>
  The policy engine's SDK as the script uses it through its client object: the methods it
  calls on the client, and \<open>range_error\<close>, what the constructor
  \<^verbatim>\<open>IPRange(from_ip=s)\<close> raises on the string \<open>s\<close>, if it refuses it. The SDK checks
  the address in the constructor; its code is not part of this repository, so which strings
  it refuses is taken as given.
\<close>

record 's pce =
  range_error :: "string \<Rightarrow> exn option"
  ip_lists_get :: "string \<Rightarrow> 's \<Rightarrow> (exn + IPList list) \<times> 's"
  ip_lists_create :: "IPList \<Rightarrow> 's \<Rightarrow> (exn + IPList) \<times> 's"
  ip_lists_update :: "string option \<Rightarrow> IPList \<Rightarrow> 's \<Rightarrow> (exn + unit) \<times> 's"
  ip_lists_get_by_reference :: "string option \<Rightarrow> 's \<Rightarrow> (exn + IPList) \<times> 's"
  pce_provision_policy_changes ::
    "string \<Rightarrow> string option list \<Rightarrow> 's \<Rightarrow> (exn + changeset) \<times> 's"

subsection \<open>Formatting\<close>

text \<open>What an f-string writes for a number, and for a string that may be \<^verbatim>\<open>None\<close>.\<close>

fun str_nat :: "nat \<Rightarrow> string" where
  "str_nat n =
     (if n < 10 then [''0123456789'' ! n]
      else str_nat (n div 10) @ [''0123456789'' ! (n mod 10)])"

declare str_nat.simps [simp del]

definition str_int :: "int \<Rightarrow> string" where
  "str_int i = (if i < 0 then ''-'' @ str_nat (nat (- i)) else str_nat (nat i))"

fun str_opt :: "string option \<Rightarrow> string" where
  "str_opt None = ''None''"
| "str_opt (Some s) = s"

text \<open>Python's truth value of a string that may be \<^verbatim>\<open>None\<close>.\<close>

fun truthy :: "string option \<Rightarrow> bool" where
  "truthy None = False"
| "truthy (Some s) = (s \<noteq> [])"

section \<open>Comparing the ranges\<close>

text \<open>
  Line 65: \<^verbatim>\<open>[ip_range.from_ip for ip_range in existing_ip_ranges if ip_range.from_ip]\<close>.
\<close>

fun truthy_from_ips :: "IPRange list \<Rightarrow> string list" where
  "truthy_from_ips [] = []"
| "truthy_from_ips (ip_range # rest) =
     (case from_ip ip_range of
        None \<Rightarrow> truthy_from_ips rest
      | Some s \<Rightarrow> (if s = [] then truthy_from_ips rest else s # truthy_from_ips rest))"

text \<open>Lines 65 and 68: the two sorted lists that are compared.\<close>

definition existing_ips :: "IPRange list \<Rightarrow> string list" where
  "existing_ips existing_ip_ranges = sort (truthy_from_ips existing_ip_ranges)"

definition new_ips :: "string list \<Rightarrow> string list" where
  "new_ips new_ip_ranges = sort new_ip_ranges"

text \<open>Lines 79 to 82: the two set differences, from the sorted lists.\<close>

definition added :: "string list \<Rightarrow> string list \<Rightarrow> string set" where
  "added existing new = set new - set existing"

definition removed :: "string list \<Rightarrow> string list \<Rightarrow> string set" where
  "removed existing new = set existing - set new"

text \<open>
  Lines 84 to 92 and 94 to 102, which differ in the heading and the sign only: nothing for
  an empty set, else the count and the entries, at most ten of them.
\<close>

definition print_diff :: "string \<Rightarrow> string \<Rightarrow> string set \<Rightarrow> 's world \<Rightarrow> 's world" where
  "print_diff heading sign d w =
     (if d = {} then w
      else
        let w1 = print (''  '' @ heading @ '': '' @ str_nat (card d) @ '' IP range(s)'') w
        in if card d \<le> 10
           then fold (\<lambda>ip. print (''    '' @ sign @ '' '' @ ip)) (sorted_list_of_set d) w1
           else print (''    ... and '' @ str_nat (card d - 10) @ '' more'')
                  (fold (\<lambda>ip. print (''    '' @ sign @ '' '' @ ip))
                     (sort (take 10 (set_order w d))) w1))"

definition compare_ip_ranges ::
  "IPRange list \<Rightarrow> string list \<Rightarrow> 's world \<Rightarrow> bool \<times> 's world" where
  "compare_ip_ranges existing_ip_ranges new_ip_ranges w =
     (let existing = existing_ips existing_ip_ranges;
          new = new_ips new_ip_ranges;
          are_different = (existing \<noteq> new)
      in if are_different
         then
           let w1 = print ''IP ranges have changed:'' w;
               w2 = print (''  Existing: '' @ str_nat (length existing) @ '' IP ranges'') w1;
               w3 = print (''  New: '' @ str_nat (length new) @ '' IP ranges'') w2;
               w4 = print_diff ''Added'' ''+'' (added existing new) w3;
               w5 = print_diff ''Removed'' ''-'' (removed existing new) w4
           in (are_different, w5)
         else
           (are_different,
            print (''IP ranges are unchanged ('' @ str_nat (length existing) @ '' IP ranges)'') w))"

section \<open>Fetching the ranges\<close>

definition ZSCALER_API_URL :: string where
  "ZSCALER_API_URL = ''https://config.zscaler.com/api/zscaler.net/future/json''"

text \<open>
  \<^verbatim>\<open>data.get('prefixes', [])\<close>: only a JSON object, a Python dict, has the method; the
  last of several equal keys is the one the dict holds, and the default is the empty list.
\<close>

fun py_type :: "json \<Rightarrow> string" where
  "py_type JNull = ''NoneType''"
| "py_type (JBool _) = ''bool''"
| "py_type (JNum _) = ''int''"
| "py_type (JStr _) = ''str''"
| "py_type (JArr _) = ''list''"
| "py_type (JObj _) = ''dict''"

fun get_prefixes :: "json \<Rightarrow> exn + json" where
  "get_prefixes (JObj kvs) =
     (case map_of (rev kvs) ''prefixes'' of None \<Rightarrow> Inr (JArr []) | Some v \<Rightarrow> Inr v)"
| "get_prefixes data =
     Inl (Exn AttributeError
       ([CHR 39] @ py_type data @ [CHR 39] @ '' object has no attribute '' @
        [CHR 39] @ ''get'' @ [CHR 39]))"

text \<open>
  \<^verbatim>\<open>len(prefixes)\<close>: strings, lists and dicts have a length, the rest raise. The
  length of a string is the number of its characters; the script only prints it.
\<close>

fun py_len :: "json \<Rightarrow> exn + nat" where
  "py_len (JStr s) = Inr (length s)"
| "py_len (JArr xs) = Inr (length xs)"
| "py_len (JObj kvs) = Inr (length (remdups (map fst kvs)))"
| "py_len v =
     Inl (Exn TypeError
       (''object of type '' @ [CHR 39] @ py_type v @ [CHR 39] @ '' has no len()''))"

text \<open>
  Lines 45 to 50: the two handlers of the fetch, tried in this order; any other exception
  leaves the function.
\<close>

definition fetch_handlers :: "exn \<Rightarrow> 's world \<Rightarrow> json outcome \<times> 's world" where
  "fetch_handlers e w =
     (if kind e = RequestException
      then (SysExit 1, print_err (''Error fetching Zscaler IPs: '' @ message e) w)
      else if kind e = KeyError \<or> kind e = ValueError
      then (SysExit 1, print_err (''Error parsing Zscaler response: '' @ message e) w)
      else (Raises e, w))"

text \<open>
  Lines 27 to 50. \<open>requests_get\<close> is \<^verbatim>\<open>requests.get\<close>, from the URL and the timeout to
  the response or the exception it raises. The value returned is whatever the body holds
  under \<^verbatim>\<open>prefixes\<close>.
\<close>

definition fetch_zscaler_ips ::
  "(string \<Rightarrow> nat \<Rightarrow> exn + response) \<Rightarrow> 's world \<Rightarrow> json outcome \<times> 's world" where
  "fetch_zscaler_ips requests_get w =
     (let w1 = print (''Fetching IP addresses from '' @ ZSCALER_API_URL @ ''...'') w;
          w2 = w1\<lparr>trace := trace w1 @ [Call (HttpGet ZSCALER_API_URL 30)]\<rparr>
      in case requests_get ZSCALER_API_URL 30 of
           Inl e \<Rightarrow> fetch_handlers e w2
         | Inr response \<Rightarrow>
             (case raise_for_status response of
                Inl e \<Rightarrow> fetch_handlers e w2
              | Inr _ \<Rightarrow>
                  (case json response of
                     Inl e \<Rightarrow> fetch_handlers e w2
                   | Inr data \<Rightarrow>
                       (case get_prefixes data of
                          Inl e \<Rightarrow> fetch_handlers e w2
                        | Inr prefixes \<Rightarrow>
                            (case py_len prefixes of
                               Inl e \<Rightarrow> fetch_handlers e w2
                             | Inr n \<Rightarrow>
                                 (Returns prefixes,
                                  print (''Successfully fetched '' @ str_nat n @
                                         '' IP ranges from Zscaler'') w2))))))"

section \<open>Creating or updating the IPList\<close>

text \<open>
  Line 130: \<^verbatim>\<open>[IPRange(from_ip=ip_range) for ip_range in ip_ranges]\<close>. The constructor holds
  the string as \<open>from_ip\<close>, or raises what the SDK raises on a string it refuses; the first
  string refused ends the comprehension.
\<close>

definition new_IPRange :: "'s pce \<Rightarrow> string \<Rightarrow> exn + IPRange" where
  "new_IPRange pce s =
     (case range_error pce s of
        Some e \<Rightarrow> Inl e
      | None \<Rightarrow> Inr \<lparr>from_ip = Some s, to_ip = None\<rparr>)"

fun ip_ranges_objects :: "'s pce \<Rightarrow> string list \<Rightarrow> exn + IPRange list" where
  "ip_ranges_objects pce [] = Inr []"
| "ip_ranges_objects pce (r # rest) =
     (case new_IPRange pce r of
        Inl e \<Rightarrow> Inl e
      | Inr obj \<Rightarrow>
          (case ip_ranges_objects pce rest of
             Inl e \<Rightarrow> Inl e
           | Inr objs \<Rightarrow> Inr (obj # objs)))"

text \<open>
  Lines 151 to 155 and 171 to 175: the object submitted, the same on both paths, from the
  name and the range objects of line 130.
\<close>

definition iplist_data :: "string \<Rightarrow> IPRange list \<Rightarrow> IPList" where
  "iplist_data iplist_name objs =
     \<lparr>href = None, name = iplist_name,
      description = Some ''Zscaler IP ranges - Auto-updated'',
      ip_ranges = Some objs\<rparr>"

text \<open>Line 138: \<^verbatim>\<open>existing_iplist.ip_ranges or []\<close>.\<close>

fun or_empty :: "'a list option \<Rightarrow> 'a list" where
  "or_empty None = []"
| "or_empty (Some xs) = xs"

text \<open>
  Lines 125 to 179, the body of the \<^verbatim>\<open>try\<close>: \<open>Inl e\<close> when \<open>e\<close> is raised in it, by
  the lookup, by the constructor of a range object, or by a later call.
\<close>

definition create_or_update_try ::
  "'s pce \<Rightarrow> string \<Rightarrow> string list \<Rightarrow> 's world \<Rightarrow> (exn + IPList \<times> bool) \<times> 's world" where
  "create_or_update_try pce iplist_name ranges w =
     (let w1 = print (''Searching for existing IPList: '' @ iplist_name @ ''...'') w
      in case invoke (IpListsGet iplist_name) (ip_lists_get pce iplist_name) w1 of
           (Inl e, w2) \<Rightarrow> (Inl e, w2)
         | (Inr iplists, w2) \<Rightarrow>
             (case ip_ranges_objects pce ranges of
                Inl e \<Rightarrow> (Inl e, w2)
              | Inr objs \<Rightarrow>
                  (case iplists of
                     existing_iplist # _ \<Rightarrow>
                       (let w3 = print (''Found existing IPList (href: '' @
                                        str_opt (href existing_iplist) @ '')'') w2;
                            existing_ip_ranges = or_empty (ip_ranges existing_iplist)
                        in case compare_ip_ranges existing_ip_ranges ranges w3 of
                             (needs_update, w4) \<Rightarrow>
                               if \<not> needs_update
                               then (Inr (existing_iplist, False),
                                     print (''IPList '' @ [CHR 39] @ iplist_name @ [CHR 39] @
                                            '' is already up to date. No update needed.'') w4)
                               else
                                 (let w5 = print (''Updating IPList with '' @
                                                  str_nat (length ranges) @ '' IP ranges...'') w4;
                                      updated_iplist_data = iplist_data iplist_name objs
                                  in case invoke
                                            (IpListsUpdate (href existing_iplist) updated_iplist_data)
                                            (ip_lists_update pce (href existing_iplist)
                                               updated_iplist_data) w5 of
                                       (Inl e, w6) \<Rightarrow> (Inl e, w6)
                                     | (Inr _, w6) \<Rightarrow>
                                         (case invoke
                                                 (IpListsGetByReference (href existing_iplist))
                                                 (ip_lists_get_by_reference pce
                                                    (href existing_iplist)) w6 of
                                            (Inl e, w7) \<Rightarrow> (Inl e, w7)
                                          | (Inr updated_iplist, w7) \<Rightarrow>
                                              (Inr (updated_iplist, True),
                                               print (''IPList href: '' @
                                                      str_opt (href updated_iplist))
                                                 (print (''Successfully updated IPList: '' @
                                                         iplist_name) w7)))))
                   | [] \<Rightarrow>
                       (let w3 = print (''IPList not found. Creating new IPList: '' @
                                        iplist_name @ ''...'') w2;
                            new_iplist_data = iplist_data iplist_name objs
                        in case invoke (IpListsCreate new_iplist_data)
                                  (ip_lists_create pce new_iplist_data) w3 of
                             (Inl e, w4) \<Rightarrow> (Inl e, w4)
                           | (Inr new_iplist, w4) \<Rightarrow>
                               (Inr (new_iplist, True),
                                print (''IPList href: '' @ str_opt (href new_iplist))
                                  (print (''Successfully created IPList: '' @ iplist_name)
                                     w4))))))"

text \<open>Lines 109 to 183: the \<^verbatim>\<open>try\<close> with its handler, which catches every exception.\<close>

definition create_or_update_iplist ::
  "'s pce \<Rightarrow> string \<Rightarrow> string list \<Rightarrow> 's world \<Rightarrow> (IPList \<times> bool) outcome \<times> 's world" where
  "create_or_update_iplist pce iplist_name ranges w =
     (case create_or_update_try pce iplist_name ranges w of
        (Inr result, w') \<Rightarrow> (Returns result, w')
      | (Inl e, w') \<Rightarrow>
          (SysExit 1, print_err (''Error creating/updating IPList: '' @ message e) w'))"

section \<open>Provisioning\<close>

text \<open>Lines 185 to 199: an exception of the call is reported and goes no further.\<close>

definition provision_policy_changes :: "'s pce \<Rightarrow> string option \<Rightarrow> 's world \<Rightarrow> 's world" where
  "provision_policy_changes pce iplist_href w =
     (let w1 = print (''Provisioning policy changes for IPList: '' @ str_opt iplist_href @ ''...'') w;
          change_description = ''Provision Zscaler IPList: '' @ str_opt iplist_href
      in case invoke (ProvisionPolicyChanges change_description [iplist_href])
                (pce_provision_policy_changes pce change_description [iplist_href]) w1 of
           (Inl e, w2) \<Rightarrow> print_err (''Error provisioning policy changes: '' @ message e) w2
         | (Inr changeset, w2) \<Rightarrow>
             print (''Workloads affected: '' @ str_int (workloads_affected changeset))
               (print (''Policy version: '' @ str_int (version changeset))
                  (print ''Successfully provisioned policy changes'' w2)))"

section \<open>The main function\<close>

text \<open>
  The command line as \<^verbatim>\<open>parser.parse_args()\<close> returns it (lines 203 to 275 are not
  modelled): a credential is a string or \<^verbatim>\<open>None\<close>.
\<close>

record args =
  pce_host :: "string option"
  api_key :: "string option"
  api_secret :: "string option"
  org_id :: int
  port :: int
  iplist_name :: string
  no_verify_ssl :: bool

text \<open>
  What \<^verbatim>\<open>main\<close> reaches outside the script: \<^verbatim>\<open>requests.get\<close>, the environment
  variable \<^verbatim>\<open>ILLUMIO_ORG_ID\<close>, the constructor of the SDK's client and the two
  methods that configure it (each gives the configured client, or raises).
\<close>

record 's sdk =
  requests_get :: "string \<Rightarrow> nat \<Rightarrow> exn + response"
  environ_ILLUMIO_ORG_ID :: "string option"
  PolicyComputeEngine :: "string \<Rightarrow> int \<Rightarrow> int \<Rightarrow> exn + 's pce"
  set_credentials :: "'s pce \<Rightarrow> string \<Rightarrow> string \<Rightarrow> exn + 's pce"
  set_tls_settings :: "'s pce \<Rightarrow> bool \<Rightarrow> exn + 's pce"

text \<open>
  The functions after the fetch are annotated \<^verbatim>\<open>List[str]\<close> and are modelled on lists of
  strings: \<open>as_ranges\<close> is the list a fetched value is, if it is one.
\<close>

fun str_list :: "json list \<Rightarrow> string list option" where
  "str_list [] = Some []"
| "str_list (JStr s # vs) = (case str_list vs of None \<Rightarrow> None | Some ss \<Rightarrow> Some (s # ss))"
| "str_list (_ # vs) = None"

fun as_ranges :: "json \<Rightarrow> string list option" where
  "as_ranges (JArr vs) = str_list vs"
| "as_ranges _ = None"

text \<open>Lines 291 to 296.\<close>

definition print_org_id :: "'s sdk \<Rightarrow> args \<Rightarrow> 's world \<Rightarrow> 's world" where
  "print_org_id sdk a w =
     (if \<not> truthy (environ_ILLUMIO_ORG_ID sdk) \<and> org_id a = 1
      then print ''  (Set ILLUMIO_ORG_ID environment variable or use --org-id to specify)''
             (print ([CHR 10] @ ''Using default organization ID: '' @ str_int (org_id a)) w)
      else print ([CHR 10] @ ''Using organization ID: '' @ str_int (org_id a)) w)"

text \<open>Lines 301 to 313, the body of the \<^verbatim>\<open>try\<close> that builds the client.\<close>

definition connect_try ::
  "'s sdk \<Rightarrow> args \<Rightarrow> 's world \<Rightarrow> (exn + 's pce) \<times> 's world" where
  "connect_try sdk a w =
     (case PolicyComputeEngine sdk (str_opt (pce_host a)) (port a) (org_id a) of
        Inl e \<Rightarrow> (Inl e, w)
      | Inr pce0 \<Rightarrow>
          (case set_credentials sdk pce0 (str_opt (api_key a)) (str_opt (api_secret a)) of
             Inl e \<Rightarrow> (Inl e, w)
           | Inr pce1 \<Rightarrow>
               (let connected = ''Successfully connected to Illumio PCE (Org ID: '' @
                                str_int (org_id a) @ '')''
                in if no_verify_ssl a
                   then
                     (let w1 = print ''Warning: SSL verification disabled'' w
                      in case set_tls_settings sdk pce1 False of
                           Inl e \<Rightarrow> (Inl e, w1)
                         | Inr pce2 \<Rightarrow> (Inr pce2, print connected w1))
                   else (Inr pce1, print connected w))))"

text \<open>
  Lines 277 to 316: the credentials are checked, the ranges fetched, the client built.
  The result is \<open>None\<close> when the fetch returns a value that is not a list of strings.
\<close>

definition main_setup ::
  "'s sdk \<Rightarrow> args \<Rightarrow> 's world \<Rightarrow> (('s pce \<times> string list) outcome \<times> 's world) option" where
  "main_setup sdk a w =
     (if \<not> truthy (pce_host a)
      then Some (SysExit 1,
        print_err ''Error: --pce-host or ILLUMIO_PCE_HOST environment variable is required'' w)
      else if \<not> truthy (api_key a)
      then Some (SysExit 1,
        print_err ''Error: --api-key or ILLUMIO_API_KEY environment variable is required'' w)
      else if \<not> truthy (api_secret a)
      then Some (SysExit 1,
        print_err ''Error: --api-secret or ILLUMIO_API_SECRET environment variable is required'' w)
      else
        case fetch_zscaler_ips (requests_get sdk) w of
          (SysExit n, w1) \<Rightarrow> Some (SysExit n, w1)
        | (Raises e, w1) \<Rightarrow> Some (Raises e, w1)
        | (Returns prefixes, w1) \<Rightarrow>
            (case as_ranges prefixes of
               None \<Rightarrow> None
             | Some ranges \<Rightarrow>
                 (let w2 = print_org_id sdk a w1;
                      w3 = print (''Connecting to Illumio PCE at '' @ str_opt (pce_host a) @ '':'' @
                                  str_int (port a) @ ''...'') w2
                  in case connect_try sdk a w3 of
                       (Inl e, w4) \<Rightarrow>
                         Some (SysExit 1,
                               print_err (''Error connecting to Illumio PCE: '' @ message e) w4)
                     | (Inr pce, w4) \<Rightarrow> Some (Returns (pce, ranges), w4))))"

text \<open>
  Lines 318 to 328: the reconcile step, then the provisioning when the IPList was changed.
  The last two messages start with a line feed and the UTF-8 bytes of a check mark.
\<close>

definition completed :: string where
  "completed = [CHR 10, CHR 0xE2, CHR 0x9C, CHR 0x93] @ '' Script completed successfully''"

definition main_reconcile ::
  "'s pce \<Rightarrow> args \<Rightarrow> string list \<Rightarrow> 's world \<Rightarrow> unit outcome \<times> 's world" where
  "main_reconcile pce a ranges w =
     (case create_or_update_iplist pce (iplist_name a) ranges w of
        (SysExit n, w1) \<Rightarrow> (SysExit n, w1)
      | (Raises e, w1) \<Rightarrow> (Raises e, w1)
      | (Returns (iplist, was_updated), w1) \<Rightarrow>
          (let w2 = print (''IPList href: '' @ str_opt (href iplist)) w1
           in if was_updated
              then
                (let w3 = print ([CHR 10] @ ''Provisioning policy changes...'') w2;
                     w4 = provision_policy_changes pce (href iplist) w3
                 in (Returns (), print (completed @ ''!'') w4))
              else (Returns (), print (completed @ '' (no changes to provision)!'') w2)))"

definition main :: "'s sdk \<Rightarrow> args \<Rightarrow> 's world \<Rightarrow> (unit outcome \<times> 's world) option" where
  "main sdk a w =
     (case main_setup sdk a w of
        None \<Rightarrow> None
      | Some (SysExit n, w1) \<Rightarrow> Some (SysExit n, w1)
      | Some (Raises e, w1) \<Rightarrow> Some (Raises e, w1)
      | Some (Returns (pce, ranges), w1) \<Rightarrow> Some (main_reconcile pce a ranges w1))"

section \<open>Observing a run\<close>

text \<open>The calls of a trace, the lines written to the error stream, and the kinds of call.\<close>

fun calls :: "event list \<Rightarrow> call list" where
  "calls [] = []"
| "calls (Call c # es) = c # calls es"
| "calls (_ # es) = calls es"

fun errors :: "event list \<Rightarrow> string list" where
  "errors [] = []"
| "errors (Stderr s # es) = s # errors es"
| "errors (_ # es) = errors es"

fun is_create :: "call \<Rightarrow> bool" where
  "is_create (IpListsCreate _) = True"
| "is_create _ = False"

fun is_update :: "call \<Rightarrow> bool" where
  "is_update (IpListsUpdate _ _) = True"
| "is_update _ = False"

fun is_provision :: "call \<Rightarrow> bool" where
  "is_provision (ProvisionPolicyChanges _ _) = True"
| "is_provision _ = False"

text \<open>
  The writes of a run: which of create and update was called, on which reference, under
  which name and with which set of ranges, whatever the order the ranges were sent in.
\<close>

datatype written = Creates string "IPRange set" | Updates "string option" string "IPRange set"

fun writes :: "call list \<Rightarrow> written list" where
  "writes [] = []"
| "writes (IpListsCreate d # cs) = Creates (name d) (set (or_empty (ip_ranges d))) # writes cs"
| "writes (IpListsUpdate h d # cs) = Updates h (name d) (set (or_empty (ip_ranges d))) # writes cs"
| "writes (_ # cs) = writes cs"

text \<open>
  What the reconcile step of a run of \<open>main\<close> returned, if the run reached it and it
  returned.
\<close>

definition reconcile_returned :: "'s sdk \<Rightarrow> args \<Rightarrow> 's world \<Rightarrow> (IPList \<times> bool) option" where
  "reconcile_returned sdk a w =
     (case main_setup sdk a w of
        Some (Returns (pce, ranges), w1) \<Rightarrow>
          (case fst (create_or_update_iplist pce (iplist_name a) ranges w1) of
             Returns result \<Rightarrow> Some result
           | _ \<Rightarrow> None)
      | _ \<Rightarrow> None)"

section \<open>A policy engine in memory\<close>

text \<open>
  A range constructor that refuses the empty string and \<open>10.0.0.1/24\<close>, a network written
  with host bits set, and accepts every other string.
\<close>

definition refused :: "string \<Rightarrow> exn option" where
  "refused s =
     (if s = '''' then Some (Exn ValueError ''not an IPv4 or IPv6 network'')
      else if s = ''10.0.0.1/24'' then Some (Exn ValueError ''10.0.0.1/24 has host bits set'')
      else None)"

text \<open>
  A small policy engine to run the script against: its state is the list of the IPLists
  it stores. A lookup filters by name, a creation gives the new IPList a reference, an
  update replaces the content of the IPList with that reference.
\<close>

definition new_href :: "IPList list \<Rightarrow> string" where
  "new_href s = ''/orgs/1/sec_policy/draft/ip_lists/'' @ str_nat (Suc (length s))"

definition memory_pce :: "(IPList list) pce" where
  "memory_pce =
     \<lparr>range_error = refused,
      ip_lists_get = (\<lambda>nm s. (Inr (filter (\<lambda>l. name l = nm) s), s)),
      ip_lists_create = (\<lambda>d s. (Inr (d\<lparr>href := Some (new_href s)\<rparr>),
                                 s @ [d\<lparr>href := Some (new_href s)\<rparr>])),
      ip_lists_update = (\<lambda>h d s. (Inr (), map (\<lambda>l. if href l = h then d\<lparr>href := h\<rparr> else l) s)),
      ip_lists_get_by_reference = (\<lambda>h s.
         (case filter (\<lambda>l. href l = h) s of
            [] \<Rightarrow> Inl (Exn OtherException ''404 Not Found'')
          | l # _ \<Rightarrow> Inr l, s)),
      pce_provision_policy_changes = (\<lambda>d hs s. (Inr \<lparr>version = 2, workloads_affected = 0\<rparr>, s))\<rparr>"

text \<open>The same engine, except that provisioning fails.\<close>

definition failing_provision_pce :: "(IPList list) pce" where
  "failing_provision_pce =
     memory_pce\<lparr>pce_provision_policy_changes :=
       (\<lambda>d hs s. (Inl (Exn OtherException ''406 Not Acceptable''), s))\<rparr>"

text \<open>The same engine, except that creating an IPList fails.\<close>

definition failing_create_pce :: "(IPList list) pce" where
  "failing_create_pce =
     memory_pce\<lparr>ip_lists_create :=
       (\<lambda>d s. (Inl (Exn OtherException ''406 Not Acceptable''), s))\<rparr>"

text \<open>
  A process about to start against the engine in state \<open>s\<close>: nothing printed or called
  yet, and sets iterated in sorted order.
\<close>

definition start :: "IPList list \<Rightarrow> (IPList list) world" where
  "start s = \<lparr>server = s, trace = [], set_order = sorted_list_of_set\<rparr>"

text \<open>A range object as \<^verbatim>\<open>IPRange(from_ip=s)\<close> builds it, and a stored IPList of such ranges.\<close>

definition ip_range :: "string \<Rightarrow> IPRange" where
  "ip_range s = \<lparr>from_ip = Some s, to_ip = None\<rparr>"

definition stored :: "string \<Rightarrow> string list \<Rightarrow> IPList" where
  "stored nm rs =
     \<lparr>href = Some ''/orgs/1/sec_policy/draft/ip_lists/7'', name = nm,
      description = Some ''Zscaler'', ip_ranges = Some (map ip_range rs)\<rparr>"

text \<open>A response with a success status and that JSON body.\<close>

definition ok_response :: "json \<Rightarrow> response" where
  "ok_response body = \<lparr>raise_for_status = Inr (), json = Inr body\<rparr>"

text \<open>An HTTP layer that answers every request with that body, and one that raises.\<close>

definition answering :: "json \<Rightarrow> string \<Rightarrow> nat \<Rightarrow> exn + response" where
  "answering body url timeout = Inr (ok_response body)"

definition raising :: "exn \<Rightarrow> string \<Rightarrow> nat \<Rightarrow> exn + response" where
  "raising e url timeout = Inl e"

text \<open>
  An outside in which the request is answered with that body, \<^verbatim>\<open>ILLUMIO_ORG_ID\<close> is
  not set, and building and configuring the client gives the client \<open>p\<close>.
\<close>

definition memory_sdk :: "(IPList list) pce \<Rightarrow> json \<Rightarrow> (IPList list) sdk" where
  "memory_sdk p body =
     \<lparr>requests_get = answering body,
      environ_ILLUMIO_ORG_ID = None,
      PolicyComputeEngine = (\<lambda>host prt org. Inr p),
      set_credentials = (\<lambda>c k sec. Inr c),
      set_tls_settings = (\<lambda>c v. Inr c)\<rparr>"

text \<open>The body Zscaler answers with for these ranges.\<close>

definition fetched :: "string list \<Rightarrow> json" where
  "fetched rs = JObj [(''prefixes'', JArr (map JStr rs))]"

text \<open>The arguments of the example in the script's help text.\<close>

definition demo_args :: args where
  "demo_args =
     \<lparr>pce_host = Some ''pce.company.com'', api_key = Some ''api_key_here'',
      api_secret = Some ''api_secret_here'', org_id = 1, port = 443,
      iplist_name = ''Zscaler IPs'', no_verify_ssl = False\<rparr>"

section \<open>Basic facts\<close>

lemma calls_append [simp]: "calls (xs @ ys) = calls xs @ calls ys"
  by (induction xs rule: calls.induct) simp_all

lemma errors_append [simp]: "errors (xs @ ys) = errors xs @ errors ys"
  by (induction xs rule: errors.induct) simp_all

lemma writes_append [simp]: "writes (xs @ ys) = writes xs @ writes ys"
  by (induction xs rule: writes.induct) simp_all

lemma print_fields [simp]:
  "trace (print s w) = trace w @ [Stdout s]"
  "server (print s w) = server w"
  "set_order (print s w) = set_order w"
  by (simp_all add: print_def)

lemma print_err_fields [simp]:
  "trace (print_err s w) = trace w @ [Stderr s]"
  "server (print_err s w) = server w"
  "set_order (print_err s w) = set_order w"
  by (simp_all add: print_err_def)

lemma fold_print_fields [simp]:
  "trace (fold (\<lambda>ip. print (f ip)) xs w) = trace w @ map (\<lambda>ip. Stdout (f ip)) xs"
  "server (fold (\<lambda>ip. print (f ip)) xs w) = server w"
  "set_order (fold (\<lambda>ip. print (f ip)) xs w) = set_order w"
  by (induction xs arbitrary: w) simp_all

lemma calls_Stdout [simp]: "calls (map (\<lambda>x. Stdout (f x)) xs) = []"
  by (induction xs) simp_all

lemma errors_Stdout [simp]: "errors (map (\<lambda>x. Stdout (f x)) xs) = []"
  by (induction xs) simp_all

text \<open>Printing the differences calls nothing and writes nothing to the error stream.\<close>

lemma print_diff_fields [simp]:
  "calls (trace (print_diff h sg d w)) = calls (trace w)"
  "errors (trace (print_diff h sg d w)) = errors (trace w)"
  "server (print_diff h sg d w) = server w"
  "set_order (print_diff h sg d w) = set_order w"
  by (simp_all add: print_diff_def Let_def)

lemma compare_fst: "fst (compare_ip_ranges ex new w) = (existing_ips ex \<noteq> new_ips new)"
  by (simp add: compare_ip_ranges_def Let_def)

lemma compare_snd_fields [simp]:
  "calls (trace (snd (compare_ip_ranges ex new w))) = calls (trace w)"
  "errors (trace (snd (compare_ip_ranges ex new w))) = errors (trace w)"
  "server (snd (compare_ip_ranges ex new w)) = server w"
  "set_order (snd (compare_ip_ranges ex new w)) = set_order w"
  by (simp_all add: compare_ip_ranges_def Let_def)

text \<open>Two lists sort to the same list exactly when one is a permutation of the other.\<close>

lemma sort_eq_iff_mset: "sort xs = sort ys \<longleftrightarrow> mset xs = mset (ys :: 'a::linorder list)"
proof
  assume "sort xs = sort ys"
  then have "mset (sort xs) = mset (sort ys)" by simp
  then show "mset xs = mset ys" by simp
next
  assume "mset xs = mset ys"
  then show "sort xs = sort ys"
    by (simp add: properties_for_sort)
qed

text \<open>The comprehension of line 65 keeps the values that are neither absent nor empty.\<close>

lemma truthy_from_ips_values:
  "truthy_from_ips ex = map the (filter (\<lambda>v. v \<noteq> None \<and> v \<noteq> Some []) (map from_ip ex))"
  by (induction ex) (auto split: option.splits)

lemma truthy_from_ips_filter:
  "truthy_from_ips (filter (\<lambda>r. truthy (from_ip r)) ex) = truthy_from_ips ex"
  by (induction ex) (auto split: option.splits)

lemma truthy_from_ips_none:
  "list_all (\<lambda>r. \<not> truthy (from_ip r)) ex \<Longrightarrow> truthy_from_ips ex = []"
  by (induction ex) (auto split: option.splits)

lemma truthy_from_ips_ip_range [simp]:
  "truthy_from_ips (map ip_range rs) = filter (\<lambda>r. r \<noteq> []) rs"
  by (induction rs) (simp_all add: ip_range_def)

section \<open>The paths of the reconcile step\<close>

lemmas run_defs = create_or_update_iplist_def create_or_update_try_def invoke_def Let_def

text \<open>
  Line 130 builds one object for each string when the constructor accepts them all, and
  raises otherwise.
\<close>

lemma ip_ranges_objects_accepted:
  "\<forall>s\<in>set B. range_error pce s = None \<Longrightarrow> ip_ranges_objects pce B = Inr (map ip_range B)"
  by (induction B) (simp_all add: new_IPRange_def ip_range_def)

lemma ip_ranges_objects_refused:
  "\<not> (\<forall>s\<in>set B. range_error pce s = None) \<Longrightarrow> \<exists>e. ip_ranges_objects pce B = Inl e"
proof (induction B)
  case Nil
  then show ?case by simp
next
  case (Cons r rest)
  show ?case
  proof (cases "range_error pce r")
    case (Some e)
    then show ?thesis
      by (simp add: new_IPRange_def)
  next
    case None
    with Cons.prems have "\<not> (\<forall>s\<in>set rest. range_error pce s = None)"
      by simp
    from Cons.IH [OF this] obtain e where "ip_ranges_objects pce rest = Inl e"
      by blast
    with None show ?thesis
      by (simp add: new_IPRange_def)
  qed
qed

text \<open>The lookup raises: the handler reports it and the process exits.\<close>

lemma lookup_fails:
  assumes "ip_lists_get pce nm (server w) = (Inl e, s)"
  shows "fst (create_or_update_iplist pce nm B w) = SysExit 1"
    and "calls (trace (snd (create_or_update_iplist pce nm B w))) = calls (trace w) @ [IpListsGet nm]"
    and "errors (trace (snd (create_or_update_iplist pce nm B w))) =
           errors (trace w) @ [''Error creating/updating IPList: '' @ message e]"
  using assms
  by (simp_all add: run_defs case_prod_beta)

text \<open>
  The lookup returns, and the constructor refuses a string: the handler reports it and the
  process exits, with no call after the lookup.
\<close>

lemma construction_fails:
  assumes "ip_lists_get pce nm (server w) = (Inr found, s)"
    and "ip_ranges_objects pce B = Inl e"
  shows "fst (create_or_update_iplist pce nm B w) = SysExit 1"
    and "calls (trace (snd (create_or_update_iplist pce nm B w))) = calls (trace w) @ [IpListsGet nm]"
    and "errors (trace (snd (create_or_update_iplist pce nm B w))) =
           errors (trace w) @ [''Error creating/updating IPList: '' @ message e]"
    and "server (snd (create_or_update_iplist pce nm B w)) = s"
  using assms
  by (simp_all add: run_defs case_prod_beta)

text \<open>The lookup finds nothing and the range objects are built: the create path.\<close>

lemma create_path:
  assumes "ip_lists_get pce nm (server w) = (Inr [], s)"
    and "\<forall>r\<in>set B. range_error pce r = None"
  shows "fst (create_or_update_iplist pce nm B w) =
           (case fst (ip_lists_create pce (iplist_data nm (map ip_range B)) s) of
              Inl e \<Rightarrow> SysExit 1 | Inr new_iplist \<Rightarrow> Returns (new_iplist, True))"
    and "calls (trace (snd (create_or_update_iplist pce nm B w))) =
           calls (trace w) @ [IpListsGet nm, IpListsCreate (iplist_data nm (map ip_range B))]"
    and "errors (trace (snd (create_or_update_iplist pce nm B w))) =
           errors (trace w) @
           (case fst (ip_lists_create pce (iplist_data nm (map ip_range B)) s) of
              Inl e \<Rightarrow> [''Error creating/updating IPList: '' @ message e] | Inr _ \<Rightarrow> [])"
    and "server (snd (create_or_update_iplist pce nm B w)) =
           snd (ip_lists_create pce (iplist_data nm (map ip_range B)) s)"
  using assms(1) ip_ranges_objects_accepted [OF assms(2)]
  by (simp_all add: run_defs case_prod_beta split: sum.splits)

text \<open>The lookup finds an IPList and the range objects are built: nothing more when the
  ranges are the same, else the update and the second read.\<close>

lemma found_path:
  assumes "ip_lists_get pce nm (server w) = (Inr (l # others), s)"
    and "\<forall>r\<in>set B. range_error pce r = None"
  shows "fst (create_or_update_iplist pce nm B w) =
           (if existing_ips (or_empty (ip_ranges l)) = new_ips B then Returns (l, False)
            else case ip_lists_update pce (href l) (iplist_data nm (map ip_range B)) s of
              (Inl e, _) \<Rightarrow> SysExit 1
            | (Inr _, s') \<Rightarrow>
                (case fst (ip_lists_get_by_reference pce (href l) s') of
                   Inl e \<Rightarrow> SysExit 1
                 | Inr updated_iplist \<Rightarrow> Returns (updated_iplist, True)))"
    and "calls (trace (snd (create_or_update_iplist pce nm B w))) =
           calls (trace w) @ [IpListsGet nm] @
           (if existing_ips (or_empty (ip_ranges l)) = new_ips B then []
            else IpListsUpdate (href l) (iplist_data nm (map ip_range B)) #
              (case fst (ip_lists_update pce (href l) (iplist_data nm (map ip_range B)) s) of
                 Inl e \<Rightarrow> [] | Inr _ \<Rightarrow> [IpListsGetByReference (href l)]))"
    and "errors (trace (snd (create_or_update_iplist pce nm B w))) =
           errors (trace w) @
           (if existing_ips (or_empty (ip_ranges l)) = new_ips B then []
            else case ip_lists_update pce (href l) (iplist_data nm (map ip_range B)) s of
              (Inl e, _) \<Rightarrow> [''Error creating/updating IPList: '' @ message e]
            | (Inr _, s') \<Rightarrow>
                (case fst (ip_lists_get_by_reference pce (href l) s') of
                   Inl e \<Rightarrow> [''Error creating/updating IPList: '' @ message e]
                 | Inr _ \<Rightarrow> []))"
    and "existing_ips (or_empty (ip_ranges l)) = new_ips B \<Longrightarrow>
           server (snd (create_or_update_iplist pce nm B w)) = s"
  using assms(1) ip_ranges_objects_accepted [OF assms(2)]
  by (simp_all add: run_defs case_prod_beta compare_fst split: sum.splits)

lemma iplist_data_content:
  "mset B' = mset B \<Longrightarrow>
   set (or_empty (ip_ranges (iplist_data nm (map ip_range B')))) =
   set (or_empty (ip_ranges (iplist_data nm (map ip_range B))))"
  by (simp add: iplist_data_def) (metis mset_eq_setD)

text \<open>The ranges the engine in memory is run on are accepted.\<close>

lemma refused_iff: "(refused s = None) = (s \<noteq> [] \<and> s \<noteq> ''10.0.0.1/24'')"
  by (simp add: refused_def)

section \<open>The comparison\<close>

text \<open>
  Claim C1, as the code has it. For every list of existing range objects and every list
  \<open>B\<close> of new range strings, with \<open>A\<close> the \<open>from_ip\<close> values of the existing range objects
  that are neither absent nor empty: the comparison returns
  \<open>changed = (sorted(A) \<noteq> sorted(B))\<close>, the differences it computes are
  \<open>added = set(B) - set(A)\<close> and \<open>removed = set(A) - set(B)\<close>, and what it prints is the
  report of these two sets when the ranges have changed, one line when they have not.
\<close>

theorem compare_ip_ranges_diff:
  "(let A = map the (filter (\<lambda>v. v \<noteq> None \<and> v \<noteq> Some []) (map from_ip existing)) in
      fst (compare_ip_ranges existing B w) = (sort A \<noteq> sort B)
    \<and> added (existing_ips existing) (new_ips B) = set B - set A
    \<and> removed (existing_ips existing) (new_ips B) = set A - set B
    \<and> snd (compare_ip_ranges existing B w) =
        (if sort A \<noteq> sort B
         then print_diff ''Removed'' ''-'' (set A - set B)
                (print_diff ''Added'' ''+'' (set B - set A)
                   (print (''  New: '' @ str_nat (length B) @ '' IP ranges'')
                      (print (''  Existing: '' @ str_nat (length A) @ '' IP ranges'')
                         (print ''IP ranges have changed:'' w))))
         else print (''IP ranges are unchanged ('' @ str_nat (length A) @ '' IP ranges)'') w))"
proof -
  define A where "A = map the (filter (\<lambda>v. v \<noteq> None \<and> v \<noteq> Some []) (map from_ip existing))"
  have ex: "existing_ips existing = sort A"
    by (simp add: existing_ips_def truthy_from_ips_values A_def)
  have "fst (compare_ip_ranges existing B w) = (sort A \<noteq> sort B)"
    by (simp add: compare_fst ex new_ips_def)
  moreover have "added (existing_ips existing) (new_ips B) = set B - set A"
    "removed (existing_ips existing) (new_ips B) = set A - set B"
    by (simp_all add: added_def removed_def ex new_ips_def)
  moreover have "snd (compare_ip_ranges existing B w) =
        (if sort A \<noteq> sort B
         then print_diff ''Removed'' ''-'' (set A - set B)
                (print_diff ''Added'' ''+'' (set B - set A)
                   (print (''  New: '' @ str_nat (length B) @ '' IP ranges'')
                      (print (''  Existing: '' @ str_nat (length A) @ '' IP ranges'')
                         (print ''IP ranges have changed:'' w))))
         else print (''IP ranges are unchanged ('' @ str_nat (length A) @ '' IP ranges)'') w)"
  proof -
    have len: "sort A = sort B \<Longrightarrow> length A = length B"
      by (metis length_sort)
    show ?thesis
      unfolding compare_ip_ranges_def ex new_ips_def
      by (simp add: added_def removed_def Let_def len)
  qed
  ultimately show ?thesis
    unfolding Let_def A_def by blast
qed

text \<open>
  Claim C1 as it is stated takes \<open>A\<close> to be the \<open>from_ip\<close> values of all the existing
  range objects. It fails on a range object whose \<open>from_ip\<close> is the empty string, against
  the new list that holds the empty string: the two sorted lists are equal, and the
  comparison still answers that the ranges have changed.
\<close>

theorem compare_ip_ranges_empty_from_ip:
  "fst (compare_ip_ranges [\<lparr>from_ip = Some '''', to_ip = None\<rparr>] [''''] (start []))
     \<noteq> (sort (map (the \<circ> from_ip) [\<lparr>from_ip = Some '''', to_ip = None\<rparr>]) \<noteq> sort [''''])"
  by (simp add: compare_fst existing_ips_def new_ips_def)

text \<open>
  Claim C8. For every list of existing ranges, every list \<open>B\<close> of new ranges and every
  permutation \<open>B'\<close> of \<open>B\<close>, the comparison gives the same answer for \<open>B'\<close> as for \<open>B\<close>, and
  the reconcile step takes the same decision with the same content: it writes through the
  same call (none, create or update), on the same reference, under the same name, the same
  set of ranges.
\<close>

theorem compare_ip_ranges_permutation:
  assumes perm: "mset B' = mset B"
  shows "fst (compare_ip_ranges existing B' w) = fst (compare_ip_ranges existing B w)
     \<and> writes (calls (trace (snd (create_or_update_iplist pce nm B' w)))) =
       writes (calls (trace (snd (create_or_update_iplist pce nm B w))))"
proof -
  from perm have new: "new_ips B' = new_ips B"
    by (simp add: new_ips_def sort_eq_iff_mset)
  from perm have sets: "set B' = set B"
    by (metis mset_eq_setD)
  have nm: "name (iplist_data nm (map ip_range B')) = name (iplist_data nm (map ip_range B))"
    by (simp add: iplist_data_def)
  obtain r s where lookup: "ip_lists_get pce nm (server w) = (r, s)"
    by (cases "ip_lists_get pce nm (server w)")
  have "writes (calls (trace (snd (create_or_update_iplist pce nm B' w)))) =
       writes (calls (trace (snd (create_or_update_iplist pce nm B w))))"
  proof (cases r)
    case (Inl e)
    with lookup show ?thesis
      by (simp add: lookup_fails)
  next
    case (Inr found)
    with lookup have found: "ip_lists_get pce nm (server w) = (Inr found, s)"
      by simp
    show ?thesis
    proof (cases "\<forall>x\<in>set B. range_error pce x = None")
      case False
      with sets have "\<not> (\<forall>x\<in>set B'. range_error pce x = None)"
        by simp
      from ip_ranges_objects_refused [OF False] ip_ranges_objects_refused [OF this]
      obtain e e' where "ip_ranges_objects pce B = Inl e" and "ip_ranges_objects pce B' = Inl e'"
        by blast
      then show ?thesis
        by (simp add: construction_fails(2) [OF found])
    next
      case True
      with sets have acc': "\<forall>x\<in>set B'. range_error pce x = None"
        by simp
      show ?thesis
      proof (cases found)
        case Nil
        with found have absent: "ip_lists_get pce nm (server w) = (Inr [], s)"
          by simp
        show ?thesis
          by (simp add: create_path(2) [OF absent True] create_path(2) [OF absent acc'] nm
              iplist_data_content [OF perm])
      next
        case (Cons l others)
        with found have present: "ip_lists_get pce nm (server w) = (Inr (l # others), s)"
          by simp
        show ?thesis
          by (simp add: found_path(2) [OF present True] found_path(2) [OF present acc'] new nm
              iplist_data_content [OF perm] split: sum.splits)
      qed
    qed
  qed
  then show ?thesis
    by (simp add: compare_fst new)
qed

text \<open>
  The stored IPList holds \<open>1.1.1.0/24\<close>; the two fetched ranges come in either order. Both
  runs find a change and update the IPList with the same two ranges.
\<close>

theorem compare_ip_ranges_permutation_witness:
  "mset [''2.2.2.0/24'', ''1.1.1.0/24''] = mset [''1.1.1.0/24'', ''2.2.2.0/24'']
   \<and> fst (compare_ip_ranges [ip_range ''1.1.1.0/24''] [''2.2.2.0/24'', ''1.1.1.0/24''] (start []))
   \<and> fst (compare_ip_ranges [ip_range ''1.1.1.0/24''] [''1.1.1.0/24'', ''2.2.2.0/24''] (start []))
   \<and> writes (calls (trace (snd (create_or_update_iplist memory_pce ''Zscaler IPs''
        [''2.2.2.0/24'', ''1.1.1.0/24''] (start [stored ''Zscaler IPs'' [''1.1.1.0/24'']])))))
     = writes (calls (trace (snd (create_or_update_iplist memory_pce ''Zscaler IPs''
        [''1.1.1.0/24'', ''2.2.2.0/24''] (start [stored ''Zscaler IPs'' [''1.1.1.0/24'']])))))"
proof -
  have h: "mset [''2.2.2.0/24'', ''1.1.1.0/24''] = mset [''1.1.1.0/24'', ''2.2.2.0/24'']"
    by simp
  have c: "fst (compare_ip_ranges [ip_range ''1.1.1.0/24''] [''1.1.1.0/24'', ''2.2.2.0/24''] (start []))"
    by (simp add: compare_fst existing_ips_def new_ips_def ip_range_def)
  from compare_ip_ranges_permutation [OF h] h c show ?thesis
    by blast
qed

text \<open>
  Claim C9. For every list of existing range objects, those whose \<open>from_ip\<close> is absent or
  empty are left out of the comparison: it does the same, and prints the same, as on the
  list without them. In particular a list in which every \<open>from_ip\<close> is absent or empty
  compares as unchanged against an empty list of fetched ranges.
\<close>

theorem compare_ip_ranges_skips_empty:
  "compare_ip_ranges existing B w =
     compare_ip_ranges (filter (\<lambda>r. truthy (from_ip r)) existing) B w
   \<and> (list_all (\<lambda>r. \<not> truthy (from_ip r)) existing \<longrightarrow>
        \<not> fst (compare_ip_ranges existing [] w))"
  by (simp add: compare_ip_ranges_def existing_ips_def new_ips_def truthy_from_ips_filter
      truthy_from_ips_none)

theorem compare_ip_ranges_skips_empty_witness:
  "list_all (\<lambda>r. \<not> truthy (from_ip r))
     [\<lparr>from_ip = None, to_ip = Some ''10.0.0.9''\<rparr>, \<lparr>from_ip = Some '''', to_ip = None\<rparr>]
   \<and> \<not> fst (compare_ip_ranges
       [\<lparr>from_ip = None, to_ip = Some ''10.0.0.9''\<rparr>, \<lparr>from_ip = Some '''', to_ip = None\<rparr>]
       [] (start []))
   \<and> compare_ip_ranges [ip_range ''1.1.1.0/24'', \<lparr>from_ip = None, to_ip = None\<rparr>]
       [''1.1.1.0/24''] (start [])
     = compare_ip_ranges [ip_range ''1.1.1.0/24''] [''1.1.1.0/24''] (start [])"
proof -
  have h: "list_all (\<lambda>r. \<not> truthy (from_ip r))
     [\<lparr>from_ip = None, to_ip = Some ''10.0.0.9''\<rparr>, \<lparr>from_ip = Some '''', to_ip = None\<rparr>]"
    by simp
  have f: "filter (\<lambda>r. truthy (from_ip r))
      [ip_range ''1.1.1.0/24'', \<lparr>from_ip = None, to_ip = None\<rparr>] = [ip_range ''1.1.1.0/24'']"
    by (simp add: ip_range_def)
  from compare_ip_ranges_skips_empty [THEN conjunct2, rule_format, OF h]
    compare_ip_ranges_skips_empty [THEN conjunct1,
      of "[ip_range ''1.1.1.0/24'', \<lparr>from_ip = None, to_ip = None\<rparr>]"]
  show ?thesis
    unfolding f using h by blast
qed

text \<open>
  Claim C10. There are lists \<open>A\<close> and \<open>B\<close> with the same elements that differ in how often
  an element occurs, so that their sorted lists differ: the comparison answers that the
  ranges have changed, both differences are empty, the report has no added and no removed
  entry, and the reconcile step updates the stored IPList. Here \<open>A\<close> holds \<open>1.1.1.0/24\<close>
  twice and \<open>B\<close> once.
\<close>

theorem duplicates_change_without_diff:
  "\<exists>A B. set A = set B \<and> sort A \<noteq> sort B
     \<and> fst (compare_ip_ranges (map ip_range A) B (start []))
     \<and> added (existing_ips (map ip_range A)) (new_ips B) = {}
     \<and> removed (existing_ips (map ip_range A)) (new_ips B) = {}
     \<and> trace (snd (compare_ip_ranges (map ip_range A) B (start []))) =
         [Stdout ''IP ranges have changed:'', Stdout ''  Existing: 2 IP ranges'',
          Stdout ''  New: 1 IP ranges'']
     \<and> calls (trace (snd (create_or_update_iplist memory_pce ''Zscaler IPs'' B
           (start [stored ''Zscaler IPs'' A])))) =
         [IpListsGet ''Zscaler IPs'',
          IpListsUpdate (Some ''/orgs/1/sec_policy/draft/ip_lists/7'')
            (iplist_data ''Zscaler IPs'' (map ip_range B)),
          IpListsGetByReference (Some ''/orgs/1/sec_policy/draft/ip_lists/7'')]"
proof -
  let ?A = "[''1.1.1.0/24'', ''1.1.1.0/24'']"
  let ?B = "[''1.1.1.0/24'']"
  have ex: "existing_ips (map ip_range ?A) = ?A" and new: "new_ips ?B = ?B"
    by (simp_all add: existing_ips_def new_ips_def ip_range_def)
  have 1: "set ?A = set ?B \<and> sort ?A \<noteq> sort ?B"
    by simp
  have 2: "fst (compare_ip_ranges (map ip_range ?A) ?B (start []))"
    unfolding compare_fst ex new by simp
  have 3: "added (existing_ips (map ip_range ?A)) (new_ips ?B) = {}"
    "removed (existing_ips (map ip_range ?A)) (new_ips ?B) = {}"
    unfolding ex new by (simp_all add: added_def removed_def)
  have 4: "trace (snd (compare_ip_ranges (map ip_range ?A) ?B (start []))) =
         [Stdout ''IP ranges have changed:'', Stdout ''  Existing: 2 IP ranges'',
          Stdout ''  New: 1 IP ranges'']"
    unfolding compare_ip_ranges_def ex new
    by (simp add: added_def removed_def print_diff_def start_def str_nat.simps)
  have lookup: "ip_lists_get memory_pce ''Zscaler IPs'' (server (start [stored ''Zscaler IPs'' ?A]))
      = (Inr [stored ''Zscaler IPs'' ?A], [stored ''Zscaler IPs'' ?A])"
    by (simp add: memory_pce_def start_def stored_def)
  have accepted: "\<forall>r\<in>set ?B. range_error memory_pce r = None"
    by (simp add: memory_pce_def refused_def)
  have st: "or_empty (ip_ranges (stored ''Zscaler IPs'' ?A)) = map ip_range ?A"
    "href (stored ''Zscaler IPs'' ?A) = Some ''/orgs/1/sec_policy/draft/ip_lists/7''"
    by (simp_all add: stored_def)
  have 5: "calls (trace (snd (create_or_update_iplist memory_pce ''Zscaler IPs'' ?B
           (start [stored ''Zscaler IPs'' ?A])))) =
         [IpListsGet ''Zscaler IPs'',
          IpListsUpdate (Some ''/orgs/1/sec_policy/draft/ip_lists/7'')
            (iplist_data ''Zscaler IPs'' (map ip_range ?B)),
          IpListsGetByReference (Some ''/orgs/1/sec_policy/draft/ip_lists/7'')]"
    unfolding found_path(2) [OF lookup accepted] st ex new
    by (simp add: start_def memory_pce_def)
  from 1 2 3 4 5 show ?thesis
    by blast
qed

section \<open>The run of main\<close>

text \<open>The handlers of the fetch call nothing.\<close>

lemma fetch_handlers_fields [simp]:
  "calls (trace (snd (fetch_handlers e w))) = calls (trace w)"
  "server (snd (fetch_handlers e w)) = server w"
  by (simp_all add: fetch_handlers_def)

lemma fetch_calls:
  "calls (trace (snd (fetch_zscaler_ips get w))) = calls (trace w) @ [HttpGet ZSCALER_API_URL 30]"
  by (simp add: fetch_zscaler_ips_def Let_def split: sum.splits)

lemma print_org_id_fields [simp]:
  "calls (trace (print_org_id sdk a w)) = calls (trace w)"
  "errors (trace (print_org_id sdk a w)) = errors (trace w)"
  "server (print_org_id sdk a w) = server w"
  by (simp_all add: print_org_id_def)

lemma connect_try_fields [simp]:
  "calls (trace (snd (connect_try sdk a w))) = calls (trace w)"
  "errors (trace (snd (connect_try sdk a w))) = errors (trace w)"
  "server (snd (connect_try sdk a w)) = server w"
  by (simp_all add: connect_try_def Let_def split: sum.splits)

text \<open>Before the reconcile step the only call is the HTTP request, if it gets that far.\<close>

lemma main_setup_provisions:
  assumes "main_setup sdk a w = Some (out, w1)"
  shows "filter is_provision (calls (trace w1)) = filter is_provision (calls (trace w))"
proof -
  obtain r wf where fe: "fetch_zscaler_ips (requests_get sdk) w = (r, wf)"
    by (cases "fetch_zscaler_ips (requests_get sdk) w")
  with fetch_calls [of "requests_get sdk" w]
  have wf: "calls (trace wf) = calls (trace w) @ [HttpGet ZSCALER_API_URL 30]"
    by simp
  let ?w3 = "print (''Connecting to Illumio PCE at '' @ str_opt (pce_host a) @ '':'' @
                    str_int (port a) @ ''...'') (print_org_id sdk a wf)"
  obtain c w4 where co: "connect_try sdk a ?w3 = (c, w4)"
    by (cases "connect_try sdk a ?w3")
  have w4: "calls (trace w4) = calls (trace wf)"
    using connect_try_fields(1) [of sdk a ?w3] unfolding co by simp
  from assms fe co wf w4 show ?thesis
    by (auto simp add: main_setup_def Let_def
        split: if_splits outcome.splits option.splits sum.splits)
qed

text \<open>The reconcile step never provisions.\<close>

lemma create_or_update_provisions:
  "filter is_provision (calls (trace (snd (create_or_update_iplist pce nm B w)))) =
     filter is_provision (calls (trace w))"
proof -
  obtain r s where lookup: "ip_lists_get pce nm (server w) = (r, s)"
    by (cases "ip_lists_get pce nm (server w)")
  show ?thesis
  proof (cases r)
    case (Inl e)
    with lookup show ?thesis
      by (simp add: lookup_fails)
  next
    case (Inr found)
    with lookup have found: "ip_lists_get pce nm (server w) = (Inr found, s)"
      by simp
    show ?thesis
    proof (cases "\<forall>x\<in>set B. range_error pce x = None")
      case False
      from ip_ranges_objects_refused [OF False]
      obtain e where "ip_ranges_objects pce B = Inl e"
        by blast
      then show ?thesis
        by (simp add: construction_fails(2) [OF found])
    next
      case True
      show ?thesis
      proof (cases found)
        case Nil
        with found have absent: "ip_lists_get pce nm (server w) = (Inr [], s)"
          by simp
        show ?thesis
          by (simp add: create_path(2) [OF absent True])
      next
        case (Cons l others)
        with found have present: "ip_lists_get pce nm (server w) = (Inr (l # others), s)"
          by simp
        show ?thesis
          by (simp add: found_path(2) [OF present True] split: sum.splits)
      qed
    qed
  qed
qed

text \<open>Provisioning calls the policy engine once, and reports the exception it raises.\<close>

lemma provision_calls:
  "calls (trace (provision_policy_changes pce h w)) =
     calls (trace w) @ [ProvisionPolicyChanges (''Provision Zscaler IPList: '' @ str_opt h) [h]]"
  by (simp add: provision_policy_changes_def invoke_def Let_def split: prod.splits sum.splits)

lemma provision_errors:
  "errors (trace (provision_policy_changes pce h w)) =
     errors (trace w) @
     (case fst (pce_provision_policy_changes pce (''Provision Zscaler IPList: '' @ str_opt h) [h]
                  (server w)) of
        Inl e \<Rightarrow> [''Error provisioning policy changes: '' @ message e]
      | Inr _ \<Rightarrow> [])"
  by (simp add: provision_policy_changes_def invoke_def Let_def split: prod.splits sum.splits)

text \<open>After the reconcile step, one provisioning call exactly when the step returned
  \<open>True\<close>.\<close>

lemma main_reconcile_provisions:
  "filter is_provision (calls (trace (snd (main_reconcile pce a ranges w)))) =
     filter is_provision (calls (trace w)) @
     (case fst (create_or_update_iplist pce (iplist_name a) ranges w) of
        Returns (iplist, was_updated) \<Rightarrow>
          if was_updated
          then [ProvisionPolicyChanges (''Provision Zscaler IPList: '' @ str_opt (href iplist))
                  [href iplist]]
          else []
      | _ \<Rightarrow> [])"
proof -
  obtain r w1 where c: "create_or_update_iplist pce (iplist_name a) ranges w = (r, w1)"
    by (cases "create_or_update_iplist pce (iplist_name a) ranges w")
  from create_or_update_provisions [of pce "iplist_name a" ranges w] c
  have "filter is_provision (calls (trace w1)) = filter is_provision (calls (trace w))"
    by simp
  with c show ?thesis
    by (auto simp add: main_reconcile_def Let_def provision_calls split: outcome.splits)
qed

lemmas eval_defs =
  main_def main_setup_def main_reconcile_def
  fetch_zscaler_ips_def fetch_handlers_def print_org_id_def connect_try_def
  create_or_update_iplist_def create_or_update_try_def compare_ip_ranges_def
  new_IPRange_def provision_policy_changes_def invoke_def print_diff_def
  existing_ips_def new_ips_def added_def removed_def iplist_data_def
  memory_sdk_def memory_pce_def refused_def
  ok_response_def answering_def demo_args_def start_def stored_def
  ip_range_def new_href_def str_int_def str_nat.simps ZSCALER_API_URL_def completed_def
  Let_def

section \<open>The fetch\<close>

text \<open>A request exception, a key error and a value error are reported and end the process.\<close>

lemma fetch_handled:
  assumes "kind e = RequestException \<or> kind e = KeyError \<or> kind e = ValueError"
  shows "fst (fetch_handlers e w) = SysExit 1"
    and "errors (trace (snd (fetch_handlers e w))) =
           errors (trace w) @
           [(if kind e = RequestException then ''Error fetching Zscaler IPs: ''
             else ''Error parsing Zscaler response: '') @ message e]"
  using assms by (auto simp add: fetch_handlers_def)

text \<open>
  A body that is not a JSON object, and a \<open>prefixes\<close> that has no length, raise an
  attribute error and a type error: no handler of the fetch catches them, and they leave it.
\<close>

lemma fetch_zscaler_ips_uncaught:
  assumes "get ZSCALER_API_URL 30 = Inr r" and "raise_for_status r = Inr ()"
    and "json r = Inr data"
    and "get_prefixes data = Inl e \<or> (\<exists>v. get_prefixes data = Inr v \<and> py_len v = Inl e)"
  shows "fst (fetch_zscaler_ips get w) = Raises e"
    and "errors (trace (snd (fetch_zscaler_ips get w))) = errors (trace w)"
proof -
  from assms(4) have k: "kind e = AttributeError \<or> kind e = TypeError"
  proof
    assume "get_prefixes data = Inl e"
    then show ?thesis
      by (cases data) (auto split: option.splits)
  next
    assume "\<exists>v. get_prefixes data = Inr v \<and> py_len v = Inl e"
    then obtain v where "py_len v = Inl e"
      by blast
    then show ?thesis
      by (cases v) auto
  qed
  with assms show "fst (fetch_zscaler_ips get w) = Raises e"
    and "errors (trace (snd (fetch_zscaler_ips get w))) = errors (trace w)"
    by (auto simp add: fetch_zscaler_ips_def fetch_handlers_def Let_def)
qed

text \<open>
  What the fetch does with every answer but those of the lemma above. A failure of the HTTP
  transport (the request raises a request exception, such as a timeout or a connection
  error, or the status check raises one for a non-success status) and a body that is not
  JSON (decoding raises a request exception or a value error) end the process with exit
  status 1, after a diagnostic on the error stream. A body that is a JSON object without the
  field \<open>prefixes\<close> gives the empty list, and a field that has a length (a string, a
  list, an object) is returned as it is, unchecked; neither writes to the error stream.
\<close>

theorem fetch_zscaler_ips_failures:
  "(get ZSCALER_API_URL 30 = Inl e \<and> kind e = RequestException \<longrightarrow>
      fst (fetch_zscaler_ips get w) = SysExit 1
      \<and> errors (trace (snd (fetch_zscaler_ips get w))) =
          errors (trace w) @ [''Error fetching Zscaler IPs: '' @ message e])
   \<and> (get ZSCALER_API_URL 30 = Inr r \<and> raise_for_status r = Inl e
        \<and> kind e = RequestException \<longrightarrow>
      fst (fetch_zscaler_ips get w) = SysExit 1
      \<and> errors (trace (snd (fetch_zscaler_ips get w))) =
          errors (trace w) @ [''Error fetching Zscaler IPs: '' @ message e])
   \<and> (get ZSCALER_API_URL 30 = Inr r \<and> raise_for_status r = Inr ()
        \<and> json r = Inl e \<and> (kind e = RequestException \<or> kind e = ValueError) \<longrightarrow>
      fst (fetch_zscaler_ips get w) = SysExit 1
      \<and> errors (trace (snd (fetch_zscaler_ips get w))) =
          errors (trace w) @
          [(if kind e = RequestException then ''Error fetching Zscaler IPs: ''
            else ''Error parsing Zscaler response: '') @ message e])
   \<and> (get ZSCALER_API_URL 30 = Inr r \<and> raise_for_status r = Inr ()
        \<and> json r = Inr (JObj kvs) \<and> map_of (rev kvs) ''prefixes'' = None \<longrightarrow>
      fst (fetch_zscaler_ips get w) = Returns (JArr [])
      \<and> errors (trace (snd (fetch_zscaler_ips get w))) = errors (trace w))
   \<and> (get ZSCALER_API_URL 30 = Inr r \<and> raise_for_status r = Inr ()
        \<and> json r = Inr (JObj kvs) \<and> map_of (rev kvs) ''prefixes'' = Some v
        \<and> py_len v = Inr n \<longrightarrow>
      fst (fetch_zscaler_ips get w) = Returns v
      \<and> errors (trace (snd (fetch_zscaler_ips get w))) = errors (trace w))"
  by (simp add: fetch_zscaler_ips_def Let_def fetch_handled)

text \<open>
  A timeout; a body whose field is spelled \<open>prefix\<close>; a body whose \<open>prefixes\<close> is a
  string.
\<close>

theorem fetch_zscaler_ips_failures_witness:
  "fst (fetch_zscaler_ips (raising (Exn RequestException ''timed out'')) (start [])) = SysExit 1
   \<and> errors (trace (snd (fetch_zscaler_ips (raising (Exn RequestException ''timed out''))
        (start [])))) = [''Error fetching Zscaler IPs: timed out'']
   \<and> fst (fetch_zscaler_ips (answering (JObj [(''prefix'', JArr [JStr ''4.4.4.0/24''])]))
        (start [])) = Returns (JArr [])
   \<and> fst (fetch_zscaler_ips (answering (JObj [(''prefixes'', JStr ''4.4.4.0/24'')]))
        (start [])) = Returns (JStr ''4.4.4.0/24'')"
proof -
  let ?e = "Exn RequestException ''timed out''"
  have a: "raising ?e ZSCALER_API_URL 30 = Inl ?e \<and> kind ?e = RequestException"
    by (simp add: raising_def)
  let ?b = "JObj [(''prefix'', JArr [JStr ''4.4.4.0/24''])]"
  have b: "answering ?b ZSCALER_API_URL 30 = Inr (ok_response ?b)
      \<and> raise_for_status (ok_response ?b) = Inr ()
      \<and> json (ok_response ?b) = Inr (JObj [(''prefix'', JArr [JStr ''4.4.4.0/24''])])
      \<and> map_of (rev [(''prefix'', JArr [JStr ''4.4.4.0/24''])]) ''prefixes'' = None"
    by (simp add: answering_def ok_response_def)
  let ?c = "JObj [(''prefixes'', JStr ''4.4.4.0/24'')]"
  have c: "answering ?c ZSCALER_API_URL 30 = Inr (ok_response ?c)
      \<and> raise_for_status (ok_response ?c) = Inr ()
      \<and> json (ok_response ?c) = Inr (JObj [(''prefixes'', JStr ''4.4.4.0/24'')])
      \<and> map_of (rev [(''prefixes'', JStr ''4.4.4.0/24'')]) ''prefixes'' = Some (JStr ''4.4.4.0/24'')
      \<and> py_len (JStr ''4.4.4.0/24'') = Inr 10"
    by (simp add: answering_def ok_response_def)
  from fetch_zscaler_ips_failures [where get = "raising ?e" and w = "start []",
      THEN conjunct1, rule_format, OF a]
    fetch_zscaler_ips_failures [where get = "answering ?b" and w = "start []",
      THEN conjunct2, THEN conjunct2, THEN conjunct2, THEN conjunct1, rule_format, OF b]
    fetch_zscaler_ips_failures [where get = "answering ?c" and w = "start []",
      THEN conjunct2, THEN conjunct2, THEN conjunct2, THEN conjunct2, rule_format, OF c]
  show ?thesis
    by (simp add: start_def)
qed

text \<open>
  Claim C2. The claim has every fetch whose body lacks the field \<open>prefixes\<close> end the
  process with a non-zero status and a diagnostic on the error stream, and the second handler
  of the fetch (lines 48 to 50) does report a missing key as a parsing error that ends the
  process. The code does not get there: line 40 reads the field with
  \<^verbatim>\<open>data.get('prefixes', [])\<close>, which never raises a key error. On the body \<open>{}\<close> the
  fetch returns the empty list and the error stream stays empty; the run of \<open>main\<close> then
  updates the stored IPList to no range at all, provisions that, and reports success.
\<close>

theorem fetch_zscaler_ips_missing_prefixes:
  "fst (fetch_zscaler_ips (answering (JObj [])) (start [])) = Returns (JArr [])
   \<and> errors (trace (snd (fetch_zscaler_ips (answering (JObj [])) (start [])))) = []
   \<and> (case main (memory_sdk memory_pce (JObj [])) demo_args
              (start [stored ''Zscaler IPs'' [''1.1.1.0/24'', ''2.2.2.0/24'']]) of
         None \<Rightarrow> False
       | Some (out, w') \<Rightarrow>
           out = Returns () \<and> errors (trace w') = []
           \<and> calls (trace w') =
               [HttpGet ZSCALER_API_URL 30, IpListsGet ''Zscaler IPs'',
                IpListsUpdate (Some ''/orgs/1/sec_policy/draft/ip_lists/7'')
                  (iplist_data ''Zscaler IPs'' []),
                IpListsGetByReference (Some ''/orgs/1/sec_policy/draft/ip_lists/7''),
                ProvisionPolicyChanges
                  ''Provision Zscaler IPList: /orgs/1/sec_policy/draft/ip_lists/7''
                  [Some ''/orgs/1/sec_policy/draft/ip_lists/7'']]
           \<and> map ip_ranges (server w') = [Some []])"
proof -
  have "fst (fetch_zscaler_ips (answering (JObj [])) (start [])) = Returns (JArr [])
      \<and> errors (trace (snd (fetch_zscaler_ips (answering (JObj [])) (start [])))) = []"
    by (simp add: fetch_zscaler_ips_def answering_def ok_response_def start_def)
  moreover have "(case main (memory_sdk memory_pce (JObj [])) demo_args
              (start [stored ''Zscaler IPs'' [''1.1.1.0/24'', ''2.2.2.0/24'']]) of
         None \<Rightarrow> False
       | Some (out, w') \<Rightarrow>
           out = Returns () \<and> errors (trace w') = []
           \<and> calls (trace w') =
               [HttpGet ZSCALER_API_URL 30, IpListsGet ''Zscaler IPs'',
                IpListsUpdate (Some ''/orgs/1/sec_policy/draft/ip_lists/7'')
                  (iplist_data ''Zscaler IPs'' []),
                IpListsGetByReference (Some ''/orgs/1/sec_policy/draft/ip_lists/7''),
                ProvisionPolicyChanges
                  ''Provision Zscaler IPList: /orgs/1/sec_policy/draft/ip_lists/7''
                  [Some ''/orgs/1/sec_policy/draft/ip_lists/7'']]
           \<and> map ip_ranges (server w') = [Some []])"
    by (simp add: eval_defs)
  ultimately show ?thesis
    by blast
qed

section \<open>The reconcile step\<close>

text \<open>
  Claim C3, as the code has it. For every stored resource that the lookup finds first and
  whose sorted existing range values (the \<open>from_ip\<close> values that are neither absent nor
  empty, those the comparison takes) equal the sorted new range list, the reconcile step
  issues no create and no update call: the lookup is its only call, and the policy engine
  is left as the lookup left it. When the constructor of range objects accepts every new
  range string, the step returns that resource, as the lookup gave it, with
  \<open>wasChanged = False\<close>; when it refuses one, the process exits with status 1. The world
  \<open>w\<close> is any world, also the one a first run has left: a second run against a state that
  matches the unchanged source, of ranges the constructor accepts, returns
  \<open>wasChanged = False\<close> and writes nothing.
\<close>

theorem reconcile_unchanged_is_noop:
  assumes found: "ip_lists_get pce nm (server w) = (Inr (existing_iplist # others), s)"
    and same: "sort (truthy_from_ips (or_empty (ip_ranges existing_iplist))) = sort B"
  shows "calls (trace (snd (create_or_update_iplist pce nm B w))) =
           calls (trace w) @ [IpListsGet nm]
       \<and> server (snd (create_or_update_iplist pce nm B w)) = s
       \<and> fst (create_or_update_iplist pce nm B w) =
           (if \<forall>r\<in>set B. range_error pce r = None then Returns (existing_iplist, False)
            else SysExit 1)"
proof (cases "\<forall>r\<in>set B. range_error pce r = None")
  case True
  from same have "existing_ips (or_empty (ip_ranges existing_iplist)) = new_ips B"
    by (simp add: existing_ips_def new_ips_def)
  with found_path [OF found True] True show ?thesis
    by simp
next
  case False
  from ip_ranges_objects_refused [OF False] obtain e where "ip_ranges_objects pce B = Inl e"
    by blast
  from construction_fails [OF found this] False show ?thesis
    by simp
qed

text \<open>
  Two runs in a row against the engine in memory, which starts empty, with the same fetched
  range: the first creates the IPList, the second finds it and only looks it up.
\<close>

theorem reconcile_unchanged_is_noop_witness:
  "fst (create_or_update_iplist memory_pce ''Zscaler IPs'' [''4.4.4.0/24'']
          (snd (create_or_update_iplist memory_pce ''Zscaler IPs'' [''4.4.4.0/24''] (start []))))
     = Returns (\<lparr>href = Some ''/orgs/1/sec_policy/draft/ip_lists/1'', name = ''Zscaler IPs'',
                 description = Some ''Zscaler IP ranges - Auto-updated'',
                 ip_ranges = Some [ip_range ''4.4.4.0/24'']\<rparr>, False)
   \<and> calls (trace (snd (create_or_update_iplist memory_pce ''Zscaler IPs'' [''4.4.4.0/24'']
          (snd (create_or_update_iplist memory_pce ''Zscaler IPs'' [''4.4.4.0/24''] (start []))))))
     = [IpListsGet ''Zscaler IPs'',
        IpListsCreate (iplist_data ''Zscaler IPs'' [ip_range ''4.4.4.0/24'']),
        IpListsGet ''Zscaler IPs'']"
proof -
  let ?l = "\<lparr>href = Some ''/orgs/1/sec_policy/draft/ip_lists/1'', name = ''Zscaler IPs'',
             description = Some ''Zscaler IP ranges - Auto-updated'',
             ip_ranges = Some [ip_range ''4.4.4.0/24'']\<rparr>"
  let ?w1 = "snd (create_or_update_iplist memory_pce ''Zscaler IPs'' [''4.4.4.0/24''] (start []))"
  have first: "ip_lists_get memory_pce ''Zscaler IPs'' (server (start [])) = (Inr [], [])"
    by (simp add: memory_pce_def start_def)
  have accepted: "\<forall>r\<in>set [''4.4.4.0/24'']. range_error memory_pce r = None"
    by (simp add: memory_pce_def refused_def)
  have server1: "server ?w1 = [?l]"
    unfolding create_path(4) [OF first accepted]
    by (simp add: memory_pce_def iplist_data_def new_href_def str_nat.simps)
  have calls1: "calls (trace ?w1) =
      [IpListsGet ''Zscaler IPs'',
       IpListsCreate (iplist_data ''Zscaler IPs'' [ip_range ''4.4.4.0/24''])]"
    unfolding create_path(2) [OF first accepted] by (simp add: start_def)
  have found: "ip_lists_get memory_pce ''Zscaler IPs'' (server ?w1) = (Inr (?l # []), [?l])"
    unfolding server1 by (simp add: memory_pce_def)
  have same: "sort (truthy_from_ips (or_empty (ip_ranges ?l))) = sort [''4.4.4.0/24'']"
    by (simp add: ip_range_def)
  from reconcile_unchanged_is_noop [OF found same] calls1 accepted show ?thesis
    by simp
qed

text \<open>
  Claim C3 as it is stated returns the stored resource with \<open>wasChanged = False\<close> whenever
  the sorted existing range values equal the sorted new range list. The stored resource
  holds the one range \<open>10.0.0.1/24\<close> and the fetched list is that range: the values are
  equal, the constructor of line 130 refuses the string, and the run ends in
  \<^verbatim>\<open>sys.exit(1)\<close> after the lookup. The same happens when the stored \<open>from_ip\<close> and the
  fetched string are both empty.
\<close>

theorem reconcile_refused_range_exits:
  "sort (map (the \<circ> from_ip) (or_empty (ip_ranges (stored ''Zscaler IPs'' [''10.0.0.1/24''])))) =
     sort [''10.0.0.1/24'']
   \<and> fst (create_or_update_iplist memory_pce ''Zscaler IPs'' [''10.0.0.1/24'']
         (start [stored ''Zscaler IPs'' [''10.0.0.1/24'']])) = SysExit 1
   \<and> calls (trace (snd (create_or_update_iplist memory_pce ''Zscaler IPs'' [''10.0.0.1/24'']
         (start [stored ''Zscaler IPs'' [''10.0.0.1/24'']])))) = [IpListsGet ''Zscaler IPs'']
   \<and> sort (map (the \<circ> from_ip) (or_empty (ip_ranges (stored ''Zscaler IPs'' [''''])))) = sort ['''']
   \<and> fst (create_or_update_iplist memory_pce ''Zscaler IPs'' ['''']
         (start [stored ''Zscaler IPs'' ['''']])) = SysExit 1"
  by (simp add: run_defs case_prod_beta new_IPRange_def memory_pce_def refused_def stored_def
      start_def ip_range_def)

text \<open>
  Claim C5, as the code has it. For every run of the reconcile step: if the lookup returns
  no resource and the constructor of range objects accepts every new range string, create
  is called exactly once, after the lookup, and update is never called; when the create call
  returns, the result is the created resource with \<open>wasChanged = True\<close> (when it raises, the
  process exits with status 1). If the lookup returns one or more resources, create is never
  called; when the constructor accepts every new range string, the first resource is used:
  the lookup is followed by nothing when its sorted ranges equal the sorted new ranges, and
  by an update on its reference otherwise. A first match whose range collection is absent or
  empty is on that path too: for a non-empty new list the lookup is followed by the update.
  When the constructor refuses a new range string, the lookup is the only call and the
  process exits with status 1.
\<close>

theorem create_or_update_branch:
  "(ip_lists_get pce nm (server w) = (Inr [], s) \<and> (\<forall>r\<in>set B. range_error pce r = None) \<longrightarrow>
      calls (trace (snd (create_or_update_iplist pce nm B w))) =
        calls (trace w) @ [IpListsGet nm, IpListsCreate (iplist_data nm (map ip_range B))]
      \<and> filter is_update (calls (trace (snd (create_or_update_iplist pce nm B w)))) =
          filter is_update (calls (trace w))
      \<and> fst (create_or_update_iplist pce nm B w) =
          (case fst (ip_lists_create pce (iplist_data nm (map ip_range B)) s) of
             Inl e \<Rightarrow> SysExit 1
           | Inr new_iplist \<Rightarrow> Returns (new_iplist, True)))
   \<and> (ip_lists_get pce nm (server w) = (Inr (l # others), s) \<longrightarrow>
      filter is_create (calls (trace (snd (create_or_update_iplist pce nm B w)))) =
        filter is_create (calls (trace w)))
   \<and> (ip_lists_get pce nm (server w) = (Inr (l # others), s)
        \<and> (\<forall>r\<in>set B. range_error pce r = None) \<longrightarrow>
      calls (trace (snd (create_or_update_iplist pce nm B w))) =
          calls (trace w) @ IpListsGet nm #
          (if sort (truthy_from_ips (or_empty (ip_ranges l))) = sort B then []
           else IpListsUpdate (href l) (iplist_data nm (map ip_range B)) #
             (case fst (ip_lists_update pce (href l) (iplist_data nm (map ip_range B)) s) of
                Inl e \<Rightarrow> []
              | Inr _ \<Rightarrow> [IpListsGetByReference (href l)]))
      \<and> ((ip_ranges l = None \<or> ip_ranges l = Some []) \<and> B \<noteq> [] \<longrightarrow>
           take 2 (drop (length (calls (trace w)))
             (calls (trace (snd (create_or_update_iplist pce nm B w))))) =
           [IpListsGet nm, IpListsUpdate (href l) (iplist_data nm (map ip_range B))]))
   \<and> (ip_lists_get pce nm (server w) = (Inr found, s)
        \<and> \<not> (\<forall>r\<in>set B. range_error pce r = None) \<longrightarrow>
      calls (trace (snd (create_or_update_iplist pce nm B w))) = calls (trace w) @ [IpListsGet nm]
      \<and> fst (create_or_update_iplist pce nm B w) = SysExit 1)"
proof -
  have refusal: "calls (trace (snd (create_or_update_iplist pce nm B w))) =
        calls (trace w) @ [IpListsGet nm]
      \<and> fst (create_or_update_iplist pce nm B w) = SysExit 1"
    if lookup: "ip_lists_get pce nm (server w) = (Inr found, s)"
      and no: "\<not> (\<forall>r\<in>set B. range_error pce r = None)" for found
  proof -
    from ip_ranges_objects_refused [OF no] obtain e where "ip_ranges_objects pce B = Inl e"
      by blast
    from construction_fails [OF lookup this] show ?thesis
      by simp
  qed
  have created: "calls (trace (snd (create_or_update_iplist pce nm B w))) =
        calls (trace w) @ [IpListsGet nm, IpListsCreate (iplist_data nm (map ip_range B))]
      \<and> filter is_update (calls (trace (snd (create_or_update_iplist pce nm B w)))) =
          filter is_update (calls (trace w))
      \<and> fst (create_or_update_iplist pce nm B w) =
          (case fst (ip_lists_create pce (iplist_data nm (map ip_range B)) s) of
             Inl e \<Rightarrow> SysExit 1
           | Inr new_iplist \<Rightarrow> Returns (new_iplist, True))"
    if "ip_lists_get pce nm (server w) = (Inr [], s)"
      and "\<forall>r\<in>set B. range_error pce r = None"
    using create_path [OF that] by simp
  have decided: "calls (trace (snd (create_or_update_iplist pce nm B w))) =
          calls (trace w) @ IpListsGet nm #
          (if sort (truthy_from_ips (or_empty (ip_ranges l))) = sort B then []
           else IpListsUpdate (href l) (iplist_data nm (map ip_range B)) #
             (case fst (ip_lists_update pce (href l) (iplist_data nm (map ip_range B)) s) of
                Inl e \<Rightarrow> []
              | Inr _ \<Rightarrow> [IpListsGetByReference (href l)]))"
    if "ip_lists_get pce nm (server w) = (Inr (l # others), s)"
      and "\<forall>r\<in>set B. range_error pce r = None"
    using found_path(2) [OF that]
    by (simp add: existing_ips_def new_ips_def)
  have no_create: "filter is_create (calls (trace (snd (create_or_update_iplist pce nm B w)))) =
        filter is_create (calls (trace w))"
    if lookup: "ip_lists_get pce nm (server w) = (Inr (l # others), s)"
  proof (cases "\<forall>r\<in>set B. range_error pce r = None")
    case True
    from decided [OF lookup True] show ?thesis
      by (simp split: sum.splits)
  next
    case False
    from refusal [OF lookup False] show ?thesis
      by simp
  qed
  have empty: "take 2 (drop (length (calls (trace w)))
             (calls (trace (snd (create_or_update_iplist pce nm B w))))) =
           [IpListsGet nm, IpListsUpdate (href l) (iplist_data nm (map ip_range B))]"
    if lookup: "ip_lists_get pce nm (server w) = (Inr (l # others), s)"
      and accepted: "\<forall>r\<in>set B. range_error pce r = None"
      and none: "ip_ranges l = None \<or> ip_ranges l = Some []" and new: "B \<noteq> []"
  proof -
    from none have "truthy_from_ips (or_empty (ip_ranges l)) = []"
      by auto
    moreover from new have "sort B \<noteq> []"
      by (metis length_0_conv length_sort)
    ultimately have "sort (truthy_from_ips (or_empty (ip_ranges l))) \<noteq> sort B"
      by simp
    with decided [OF lookup accepted] show ?thesis
      by simp
  qed
  from refusal created decided no_create empty show ?thesis
    by blast
qed

text \<open>
  The engine in memory, empty, and then holding an IPList of that name without range
  collection.
\<close>

theorem create_or_update_branch_witness:
  "calls (trace (snd (create_or_update_iplist memory_pce ''Zscaler IPs'' [''4.4.4.0/24'']
      (start [])))) =
     [IpListsGet ''Zscaler IPs'',
      IpListsCreate (iplist_data ''Zscaler IPs'' [ip_range ''4.4.4.0/24''])]
   \<and> fst (create_or_update_iplist memory_pce ''Zscaler IPs'' [''4.4.4.0/24''] (start [])) =
       Returns (\<lparr>href = Some ''/orgs/1/sec_policy/draft/ip_lists/1'', name = ''Zscaler IPs'',
                  description = Some ''Zscaler IP ranges - Auto-updated'',
                  ip_ranges = Some [ip_range ''4.4.4.0/24'']\<rparr>, True)
   \<and> calls (trace (snd (create_or_update_iplist memory_pce ''Zscaler IPs'' [''4.4.4.0/24'']
        (start [\<lparr>href = Some ''/orgs/1/sec_policy/draft/ip_lists/7'', name = ''Zscaler IPs'',
                  description = None, ip_ranges = None\<rparr>])))) =
       [IpListsGet ''Zscaler IPs'',
        IpListsUpdate (Some ''/orgs/1/sec_policy/draft/ip_lists/7'')
          (iplist_data ''Zscaler IPs'' [ip_range ''4.4.4.0/24'']),
        IpListsGetByReference (Some ''/orgs/1/sec_policy/draft/ip_lists/7'')]
   \<and> fst (create_or_update_iplist memory_pce ''Zscaler IPs'' [''4.4.4.0/24'', ''10.0.0.1/24'']
        (start [])) = SysExit 1"
proof -
  let ?B = "[''4.4.4.0/24'']"
  let ?C = "[''4.4.4.0/24'', ''10.0.0.1/24'']"
  let ?l = "\<lparr>href = Some ''/orgs/1/sec_policy/draft/ip_lists/7'', name = ''Zscaler IPs'',
             description = None, ip_ranges = None\<rparr>"
  have accepted: "\<forall>r\<in>set ?B. range_error memory_pce r = None"
    by (simp add: memory_pce_def refused_def)
  have absent: "ip_lists_get memory_pce ''Zscaler IPs'' (server (start [])) = (Inr [], [])
      \<and> (\<forall>r\<in>set ?B. range_error memory_pce r = None)"
    using accepted by (simp add: memory_pce_def start_def)
  have present: "ip_lists_get memory_pce ''Zscaler IPs'' (server (start [?l])) =
      (Inr (?l # []), [?l]) \<and> (\<forall>r\<in>set ?B. range_error memory_pce r = None)"
    using accepted by (simp add: memory_pce_def start_def)
  have empty: "(ip_ranges ?l = None \<or> ip_ranges ?l = Some []) \<and> ?B \<noteq> []"
    by simp
  have refuses: "ip_lists_get memory_pce ''Zscaler IPs'' (server (start [])) = (Inr [], [])
      \<and> \<not> (\<forall>r\<in>set ?C. range_error memory_pce r = None)"
    by (simp add: memory_pce_def start_def refused_def)
  note branch = create_or_update_branch [where pce = memory_pce and B = ?B]
  from branch [where w = "start []", THEN conjunct1, rule_format, OF absent]
    branch [where w = "start [?l]", THEN conjunct2, THEN conjunct2, THEN conjunct1,
      rule_format, OF present, THEN conjunct2, rule_format, OF empty]
    branch [where w = "start [?l]", THEN conjunct2, THEN conjunct2, THEN conjunct1,
      rule_format, OF present, THEN conjunct1]
    create_or_update_branch [where pce = memory_pce and B = ?C and w = "start []",
      THEN conjunct2, THEN conjunct2, THEN conjunct2, rule_format, OF refuses]
  show ?thesis
    by (simp add: start_def memory_pce_def iplist_data_def new_href_def str_nat.simps
        ip_range_def)
qed

text \<open>
  Claim C5 as it is stated has create called once, with the result \<open>wasChanged = True\<close>,
  whenever the lookup returns no resource. With the fetched range \<open>10.0.0.1/24\<close>, which
  the constructor of line 130 refuses, the lookup returns no resource and the run ends in
  \<^verbatim>\<open>sys.exit(1)\<close> without calling create. Against an engine whose create call raises,
  create is called and the run ends in \<^verbatim>\<open>sys.exit(1)\<close> too: nothing is returned.
\<close>

theorem create_failure_exits:
  "ip_lists_get memory_pce ''Zscaler IPs'' (server (start [])) = (Inr [], [])
   \<and> fst (create_or_update_iplist memory_pce ''Zscaler IPs'' [''10.0.0.1/24''] (start []))
       = SysExit 1
   \<and> calls (trace (snd (create_or_update_iplist memory_pce ''Zscaler IPs'' [''10.0.0.1/24'']
        (start [])))) = [IpListsGet ''Zscaler IPs'']
   \<and> ip_lists_get failing_create_pce ''Zscaler IPs'' (server (start [])) = (Inr [], [])
   \<and> fst (create_or_update_iplist failing_create_pce ''Zscaler IPs'' [''4.4.4.0/24''] (start []))
       = SysExit 1
   \<and> calls (trace (snd (create_or_update_iplist failing_create_pce ''Zscaler IPs''
        [''4.4.4.0/24''] (start [])))) =
       [IpListsGet ''Zscaler IPs'',
        IpListsCreate (iplist_data ''Zscaler IPs'' [ip_range ''4.4.4.0/24''])]"
  by (simp add: run_defs case_prod_beta new_IPRange_def failing_create_pce_def memory_pce_def
      refused_def start_def ip_range_def)




section \<open>Provisioning in a run of main\<close>

text \<open>
  Claim C4. In every run of \<open>main\<close>, the provisioning calls of the run are: one call, for
  the reference of the resource returned, when the reconcile step returned
  \<open>wasChanged = True\<close>; none when it returned \<open>False\<close>, and none when the run did not
  reach the step or the step did not return. In particular, when the lookup finds a
  resource whose sorted ranges equal the sorted fetched ranges, the run makes no
  provisioning call.
\<close>

theorem provision_iff_changed:
  assumes run: "main sdk a w = Some (out, w')"
  shows "filter is_provision (calls (trace w')) =
           filter is_provision (calls (trace w)) @
           (case reconcile_returned sdk a w of
              Some (iplist, was_updated) \<Rightarrow>
                if was_updated
                then [ProvisionPolicyChanges
                        (''Provision Zscaler IPList: '' @ str_opt (href iplist)) [href iplist]]
                else []
            | None \<Rightarrow> [])
       \<and> (\<forall>pce ranges w1 l others s.
            main_setup sdk a w = Some (Returns (pce, ranges), w1) \<and>
            ip_lists_get pce (iplist_name a) (server w1) = (Inr (l # others), s) \<and>
            sort (truthy_from_ips (or_empty (ip_ranges l))) = sort ranges \<longrightarrow>
            filter is_provision (calls (trace w')) = filter is_provision (calls (trace w)))"
proof -
  have first: "filter is_provision (calls (trace w')) =
           filter is_provision (calls (trace w)) @
           (case reconcile_returned sdk a w of
              Some (iplist, was_updated) \<Rightarrow>
                if was_updated
                then [ProvisionPolicyChanges
                        (''Provision Zscaler IPList: '' @ str_opt (href iplist)) [href iplist]]
                else []
            | None \<Rightarrow> [])"
  proof (cases "main_setup sdk a w")
    case None
    with run show ?thesis
      by (simp add: main_def)
  next
    case (Some p)
    obtain r w1 where p: "p = (r, w1)"
      by (cases p)
    note pre = main_setup_provisions [OF Some [unfolded p]]
    show ?thesis
    proof (cases r)
      case (Returns v)
      obtain pce ranges where v: "v = (pce, ranges)"
        by (cases v)
      from run Some p Returns v have w': "w' = snd (main_reconcile pce a ranges w1)"
        by (simp add: main_def)
      show ?thesis
        unfolding w' main_reconcile_provisions pre
        using Some p Returns v
        by (simp add: reconcile_returned_def split: outcome.splits)
    next
      case (SysExit n)
      with run Some p pre show ?thesis
        by (auto simp add: main_def reconcile_returned_def)
    next
      case (Raises e)
      with run Some p pre show ?thesis
        by (auto simp add: main_def reconcile_returned_def)
    qed
  qed
  have second: "filter is_provision (calls (trace w')) = filter is_provision (calls (trace w))"
    if su: "main_setup sdk a w = Some (Returns (pce, ranges), w1)"
      and found: "ip_lists_get pce (iplist_name a) (server w1) = (Inr (l # others), s)"
      and same: "sort (truthy_from_ips (or_empty (ip_ranges l))) = sort ranges"
    for pce ranges w1 l others s
  proof (cases "\<forall>r\<in>set ranges. range_error pce r = None")
    case True
    from same have "existing_ips (or_empty (ip_ranges l)) = new_ips ranges"
      by (simp add: existing_ips_def new_ips_def)
    with found_path(1) [OF found True]
    have "fst (create_or_update_iplist pce (iplist_name a) ranges w1) = Returns (l, False)"
      by simp
    with su have "reconcile_returned sdk a w = Some (l, False)"
      by (simp add: reconcile_returned_def)
    with first show ?thesis
      by simp
  next
    case False
    from ip_ranges_objects_refused [OF False] obtain e where "ip_ranges_objects pce ranges = Inl e"
      by blast
    from construction_fails(1) [OF found this] su
    have "reconcile_returned sdk a w = None"
      by (simp add: reconcile_returned_def)
    with first show ?thesis
      by simp
  qed
  from first second show ?thesis
    by blast
qed

text \<open>
  A run that finds changed ranges provisions once; a run that fetches the stored ranges in
  another order does not provision.
\<close>

theorem provision_iff_changed_witness:
  "(case main (memory_sdk memory_pce (fetched [''2.2.2.0/24'', ''3.3.3.0/24''])) demo_args
          (start [stored ''Zscaler IPs'' [''1.1.1.0/24'', ''2.2.2.0/24'']]) of
      None \<Rightarrow> False
    | Some (out, w') \<Rightarrow>
        filter is_provision (calls (trace w')) =
          [ProvisionPolicyChanges
             ''Provision Zscaler IPList: /orgs/1/sec_policy/draft/ip_lists/7''
             [Some ''/orgs/1/sec_policy/draft/ip_lists/7'']])
   \<and> (case main (memory_sdk memory_pce (fetched [''2.2.2.0/24'', ''1.1.1.0/24''])) demo_args
          (start [stored ''Zscaler IPs'' [''1.1.1.0/24'', ''2.2.2.0/24'']]) of
      None \<Rightarrow> False
    | Some (out, w') \<Rightarrow> filter is_provision (calls (trace w')) = [])"
proof -
  let ?w = "start [stored ''Zscaler IPs'' [''1.1.1.0/24'', ''2.2.2.0/24'']]"
  let ?changed = "memory_sdk memory_pce (fetched [''2.2.2.0/24'', ''3.3.3.0/24''])"
  let ?same = "memory_sdk memory_pce (fetched [''2.2.2.0/24'', ''1.1.1.0/24''])"
  have "main ?changed demo_args ?w \<noteq> None"
    by (simp add: eval_defs fetched_def)
  then obtain out1 w1 where run1: "main ?changed demo_args ?w = Some (out1, w1)"
    by auto
  have r1: "reconcile_returned ?changed demo_args ?w =
      Some (\<lparr>href = Some ''/orgs/1/sec_policy/draft/ip_lists/7'', name = ''Zscaler IPs'',
              description = Some ''Zscaler IP ranges - Auto-updated'',
              ip_ranges = Some [ip_range ''2.2.2.0/24'', ip_range ''3.3.3.0/24'']\<rparr>, True)"
    by (simp add: eval_defs reconcile_returned_def fetched_def)
  have "main ?same demo_args ?w \<noteq> None"
    by (simp add: eval_defs fetched_def)
  then obtain out2 w2 where run2: "main ?same demo_args ?w = Some (out2, w2)"
    by auto
  have r2: "reconcile_returned ?same demo_args ?w =
      Some (stored ''Zscaler IPs'' [''1.1.1.0/24'', ''2.2.2.0/24''], False)"
    by (simp add: eval_defs reconcile_returned_def fetched_def)
  from provision_iff_changed [OF run1, THEN conjunct1] provision_iff_changed [OF run2, THEN conjunct1]
  show ?thesis
    unfolding run1 run2 r1 r2 by (simp add: start_def)
qed

text \<open>
  Claim C7. For every run of \<open>main\<close> in which the reconcile step returned a created or
  updated resource and the provisioning call then raises, the error is written to the
  error stream, no exception leaves \<open>main\<close>, the last line printed reports success, and
  \<open>main\<close> returns, so that the process ends with exit status 0.
\<close>

theorem provision_failure_is_not_fatal:
  assumes su: "main_setup sdk a w = Some (Returns (pce, ranges), w1)"
    and mutated: "create_or_update_iplist pce (iplist_name a) ranges w1 =
                    (Returns (iplist, True), w2)"
    and fails: "fst (pce_provision_policy_changes pce
                      (''Provision Zscaler IPList: '' @ str_opt (href iplist)) [href iplist]
                      (server w2)) = Inl e"
  shows "\<exists>out w'. main sdk a w = Some (out, w') \<and> out = Returns () \<and> exit_status out = 0
           \<and> errors (trace w') =
               errors (trace w2) @ [''Error provisioning policy changes: '' @ message e]
           \<and> last (trace w') = Stdout (completed @ ''!'')"
proof -
  let ?w3 = "print ([CHR 10] @ ''Provisioning policy changes...'')
               (print (''IPList href: '' @ str_opt (href iplist)) w2)"
  let ?w4 = "provision_policy_changes pce (href iplist) ?w3"
  from su mutated have run: "main sdk a w = Some (Returns (), print (completed @ ''!'') ?w4)"
    by (simp add: main_def main_reconcile_def Let_def)
  from fails have "errors (trace ?w4) =
      errors (trace w2) @ [''Error provisioning policy changes: '' @ message e]"
    by (simp add: provision_errors)
  with run show ?thesis
    by simp
qed

text \<open>An engine that creates the IPList and refuses to provision it.\<close>

theorem provision_failure_is_not_fatal_witness:
  "(case main (memory_sdk failing_provision_pce (fetched [''4.4.4.0/24''])) demo_args (start []) of
      None \<Rightarrow> False
    | Some (out, w') \<Rightarrow>
        out = Returns () \<and> exit_status out = 0
        \<and> errors (trace w') = [''Error provisioning policy changes: 406 Not Acceptable'']
        \<and> last (trace w') = Stdout (completed @ ''!'')
        \<and> calls (trace w') =
            [HttpGet ZSCALER_API_URL 30, IpListsGet ''Zscaler IPs'',
             IpListsCreate (iplist_data ''Zscaler IPs'' [ip_range ''4.4.4.0/24'']),
             ProvisionPolicyChanges
               ''Provision Zscaler IPList: /orgs/1/sec_policy/draft/ip_lists/1''
               [Some ''/orgs/1/sec_policy/draft/ip_lists/1'']])"
proof -
  let ?sdk = "memory_sdk failing_provision_pce (fetched [''4.4.4.0/24''])"
  obtain w1 where su: "main_setup ?sdk demo_args (start []) =
      Some (Returns (failing_provision_pce, [''4.4.4.0/24'']), w1)"
    and w1: "server w1 = []" "errors (trace w1) = []"
      "calls (trace w1) = [HttpGet ZSCALER_API_URL 30]"
    by (simp add: eval_defs failing_provision_pce_def fetched_def)
  let ?l = "\<lparr>href = Some ''/orgs/1/sec_policy/draft/ip_lists/1'', name = ''Zscaler IPs'',
             description = Some ''Zscaler IP ranges - Auto-updated'',
             ip_ranges = Some [ip_range ''4.4.4.0/24'']\<rparr>"
  have absent: "ip_lists_get failing_provision_pce ''Zscaler IPs'' (server w1) = (Inr [], [])"
    by (simp add: w1 failing_provision_pce_def memory_pce_def)
  have accepted: "\<forall>r\<in>set [''4.4.4.0/24'']. range_error failing_provision_pce r = None"
    by (simp add: failing_provision_pce_def memory_pce_def refused_def)
  obtain w2 where mutated: "create_or_update_iplist failing_provision_pce (iplist_name demo_args)
      [''4.4.4.0/24''] w1 = (Returns (?l, True), w2)"
    and w2: "errors (trace w2) = []"
      "calls (trace w2) = [HttpGet ZSCALER_API_URL 30, IpListsGet ''Zscaler IPs'',
             IpListsCreate (iplist_data ''Zscaler IPs'' [ip_range ''4.4.4.0/24''])]"
    using create_path [OF absent accepted]
    by (cases "create_or_update_iplist failing_provision_pce (iplist_name demo_args)
      [''4.4.4.0/24''] w1")
      (simp add: w1 failing_provision_pce_def memory_pce_def demo_args_def iplist_data_def
        new_href_def str_nat.simps ip_range_def)
  have fails: "fst (pce_provision_policy_changes failing_provision_pce
      (''Provision Zscaler IPList: '' @ str_opt (href ?l)) [href ?l] (server w2)) =
      Inl (Exn OtherException ''406 Not Acceptable'')"
    by (simp add: failing_provision_pce_def)
  from provision_failure_is_not_fatal [OF su mutated fails]
  obtain out w' where run: "main ?sdk demo_args (start []) = Some (out, w')"
    and out: "out = Returns ()" "exit_status out = 0"
    and err: "errors (trace w') = [''Error provisioning policy changes: 406 Not Acceptable'']"
    and lst: "last (trace w') = Stdout (completed @ ''!'')"
    by (auto simp add: w2)
  from run su mutated have "calls (trace w') = calls (trace w2) @
      [ProvisionPolicyChanges ''Provision Zscaler IPList: /orgs/1/sec_policy/draft/ip_lists/1''
         [Some ''/orgs/1/sec_policy/draft/ip_lists/1'']]"
    by (auto simp add: main_def main_reconcile_def Let_def provision_calls)
  with run out err lst w2 show ?thesis
    by simp
qed


end
